theory Spec2Isabelle
  imports Main
begin

section \<open>The backup pipeline of coco-neo4j-backup\<close>

text \<open>
  The program is a sequence of calls to collaborators (the fleet API, rsync, the archive
  streamer, the S3 writer, the logger). Every such call is recorded, with its outcome, as an
  event of a trace; the trace is threaded through the functions in the order the Go code
  runs. A collaborator answers as a function of the trace so far, so that two calls of the
  same operation may answer differently (the first rsync fails, the second succeeds).

  A Go \<open>error\<close> is its message; a nil error is \<open>None\<close>. A pair \<open>(value, error)\<close> of which
  the code only reads one side is a sum, \<open>Inl\<close> the error.
\<close>

subsection \<open>Data\<close>

type_synonym error = string

text \<open>An \<open>io.WriteCloser\<close> or \<open>*io.PipeReader\<close>: the identity of the handle.\<close>

type_synonym handle = nat

text \<open>The fields of \<open>schema.UnitState\<close> that the program reads.\<close>

record UnitState =
  Name :: string
  SystemdActiveState :: string
  SystemdLoadState :: string

datatype level = InfoLevel | WarnLevel | ErrorLevel | FatalLevel

datatype event =
    Log level string
  | CallSOCKS5 string "error option"
  | CallNewHTTPClient string "error option"
  | CallGetWriter string "error + handle"
  | CallRsync string string "error option"
  | CallUnitStates "error + UnitState list"
  | CallSetUnitTargetState string string "error option"
  | CallCreateBackup string string "error + handle"
  | CallCopy handle handle "error option"
  | CallCloseWriter handle
  | CallCloseReader handle
  | CallValidateEnvironment

text \<open>
  \<open>type fleetAPI interface\<close> (fleet.go, line 16): the two methods of the fleet client,
  each answering as a function of the trace so far.
\<close>

record fleetAPI =
  UnitStates :: "event list \<Rightarrow> error + UnitState list"
  SetUnitTargetState :: "event list \<Rightarrow> string \<Rightarrow> string \<Rightarrow> error option"

subsection \<open>fleet.go\<close>

text \<open>\<open>setTargetState\<close> (fleet.go, lines 80-96).\<close>

definition setTargetState ::
  "fleetAPI \<Rightarrow> string \<Rightarrow> string \<Rightarrow> event list \<Rightarrow> error option \<times> event list" where
  "setTargetState fleetClient serviceName targetState tr =
     (let err = SetUnitTargetState fleetClient tr serviceName targetState;
          tr1 = tr @ [CallSetUnitTargetState serviceName targetState err]
      in if err \<noteq> None
         then (err, tr1 @ [Log ErrorLevel ''Problem setting unit target state!''])
         else (err, tr1 @ [Log InfoLevel ''Set unit target state successfully.'']))"

text \<open>
  The loop of \<open>isServiceActive\<close> (fleet.go, lines 107-121): the variables
  \<open>isActive\<close> and \<open>found\<close>, both false before the loop, and the log lines of the scan.
  The loop breaks at the first entry whose name matches.
\<close>

fun scanUnits :: "UnitState list \<Rightarrow> string \<Rightarrow> bool \<times> bool \<times> event list" where
  "scanUnits [] serviceName = (False, False, [])"
| "scanUnits (each # rest) serviceName =
     (if Name each = serviceName
      then (SystemdActiveState each = ''active'', True, [Log InfoLevel ''Processing service.''])
      else scanUnits rest serviceName)"

text \<open>\<open>isServiceActive\<close> (fleet.go, lines 98-127).\<close>

definition isServiceActive ::
  "fleetAPI \<Rightarrow> string \<Rightarrow> event list \<Rightarrow> (bool \<times> error option) \<times> event list" where
  "isServiceActive fleetClient serviceName tr =
     (let res = UnitStates fleetClient tr;
          tr1 = tr @ [CallUnitStates res]
      in case res of
           Inl err \<Rightarrow>
             ((False, Some err),
              tr1 @ [Log ErrorLevel
                ''Could not retrieve list of units from fleet API, do you need to start a SOCKS proxy?''])
         | Inr unitStates \<Rightarrow>
             (let tr2 = tr1 @ [Log InfoLevel ''Retrieved services from fleet API.''];
                  (isActive, found, logs) = scanUnits unitStates serviceName;
                  tr3 = tr2 @ logs;
                  tr4 = (if \<not> found
                         then tr3 @ [Log WarnLevel
                           ''Could not find service in list of services, assuming the service is inactive.'']
                         else tr3)
              in ((isActive, None), tr4)))"

definition deployerProblem :: string where
  "deployerProblem =
     ''Problem: either the deployer is still active, or there was a problem checking its status.''
     @ [CHR 0x0A] @
     ''We cannot complete the backup process in case neo4j is accidentally started up again during backup creation.''"

text \<open>\<open>shutDownNeo\<close> (fleet.go, lines 55-78).\<close>

definition shutDownNeo :: "fleetAPI \<Rightarrow> event list \<Rightarrow> error option \<times> event list" where
  "shutDownNeo fleetClient tr =
     (let deployerServiceName = ''deployer.service'';
          ((isDeployerActive, err), tr1) = isServiceActive fleetClient deployerServiceName tr
      in if isDeployerActive \<or> err \<noteq> None
         then (let tr2 = tr1 @ [Log ErrorLevel deployerProblem]
               in if err \<noteq> None then (err, tr2) else (Some deployerProblem, tr2))
         else (let serviceName = ''neo4j-red@1.service''
               in setTargetState fleetClient serviceName ''inactive'' tr1))"

text \<open>
  \<open>startNeo\<close> (fleet.go, lines 129-135): the error of \<open>setTargetState\<close> is dropped and
  the function returns nil.
\<close>

definition startNeo :: "fleetAPI \<Rightarrow> event list \<Rightarrow> error option \<times> event list" where
  "startNeo fleetClient tr =
     (let tr1 = tr @ [Log InfoLevel ''Starting up neo4j...''];
          serviceName = ''neo4j-red@1.service'';
          (_, tr2) = setTargetState fleetClient serviceName ''launched'' tr1
      in (None, tr2))"

subsection \<open>The collaborators of the main file\<close>

text \<open>
  What the main file calls and the sources do not define: the URL parser, the SOCKS5
  dialer and the fleet HTTP client of \<open>newFleetClient\<close>, the clock, the S3 writer
  provider, \<open>rsync\<close>, \<open>createBackup\<close>, \<open>io.Copy\<close>. Each is a parameter of the model.
\<close>

text \<open>The date and clock fields of a \<open>time.Time\<close> in UTC, as its methods return them.\<close>

record gotime =
  Year :: int
  Month :: nat
  Day :: nat
  Hour :: nat
  Minute :: nat
  Second :: nat

record world =
  urlParse :: "string \<Rightarrow> error + string"
  SOCKS5 :: "event list \<Rightarrow> string \<Rightarrow> error option"
  NewHTTPClient :: "event list \<Rightarrow> string \<Rightarrow> error + fleetAPI"
  nowUTC :: "event list \<Rightarrow> gotime"
  getWriter :: "event list \<Rightarrow> string \<Rightarrow> string \<Rightarrow> string \<Rightarrow> string \<Rightarrow> string \<Rightarrow> error + handle"
  rsync :: "event list \<Rightarrow> string \<Rightarrow> string \<Rightarrow> error option"
  createBackup :: "event list \<Rightarrow> string \<Rightarrow> string \<Rightarrow> error + handle"
  ioCopy :: "event list \<Rightarrow> handle \<Rightarrow> handle \<Rightarrow> error option"

text \<open>\<open>type config struct\<close> (main file, lines 17-27).\<close>

record config =
  fleetEndpoint :: string
  socksProxy :: string
  awsAccessKey :: string
  awsSecretKey :: string
  dataFolder :: string
  targetFolder :: string
  s3Domain :: string
  bucketName :: string
  env :: string

text \<open>
  A function that may end the process (\<open>log.Fatalf\<close> and \<open>os.Exit\<close> never return)
  either returns a value or exits with a status.
\<close>

datatype 'a proc = Returns 'a | Exits nat

subsection \<open>newFleetClient\<close>

text \<open>
  \<open>newFleetClient\<close> (fleet.go, lines 21-53). \<open>log.Fatalf\<close> logs at the fatal level and
  exits the process with status 1.
\<close>

definition newFleetClient ::
  "world \<Rightarrow> string \<Rightarrow> string \<Rightarrow> event list \<Rightarrow> (error + fleetAPI) proc \<times> event list" where
  "newFleetClient w fleetEndpoint' socksProxy' tr =
     (case urlParse w fleetEndpoint' of
        Inl err \<Rightarrow> (Returns (Inl err), tr)
      | Inr u \<Rightarrow>
          (let (fatal, tr1) =
                 (if socksProxy' \<noteq> []
                  then (let tr' = tr @ [Log InfoLevel (''using SOCKS proxy '' @ socksProxy')];
                            err2 = SOCKS5 w tr' socksProxy';
                            tr'' = tr' @ [CallSOCKS5 socksProxy' err2]
                        in if err2 \<noteq> None
                           then (True, tr'' @ [Log FatalLevel (''error with proxy '' @ socksProxy')])
                           else (False, tr''))
                  else (False, tr))
           in if fatal then (Exits 1, tr1)
              else (let tr2 = tr1 @ [Log InfoLevel ''Connecting to fleet API.''];
                        res = NewHTTPClient w tr2 u
                    in case res of
                         Inl err \<Rightarrow> (Returns (Inl err), tr2 @ [CallNewHTTPClient u (Some err)])
                       | Inr fleetHTTPAPIClient \<Rightarrow>
                           (Returns (Inr fleetHTTPAPIClient),
                            tr2 @ [CallNewHTTPClient u None,
                                   Log InfoLevel ''Connection successfully established to fleet API.'']))))"

subsection \<open>The archive name\<close>

text \<open>\<open>const archiveNameDateFormat\<close> (main file, line 13).\<close>

definition archiveNameDateFormat :: string where
  "archiveNameDateFormat = ''2006-01-02T15-04-05''"

definition digit :: "nat \<Rightarrow> char" where
  "digit d = ''0123456789'' ! d"

text \<open>The decimal digits of a number, most significant first.\<close>

fun digits :: "nat \<Rightarrow> string" where
  "digits n = (if n < 10 then [digit n] else digits (n div 10) @ [digit (n mod 10)])"

declare digits.simps [simp del]

text \<open>
  \<open>appendInt\<close> of package \<open>time\<close>: a minus sign for a negative number, then the decimal
  digits, padded with zeros on the left to the width.
\<close>

definition appendInt :: "int \<Rightarrow> nat \<Rightarrow> string" where
  "appendInt x width =
     (let u = nat \<bar>x\<bar>;
          buf = digits u
      in (if x < 0 then ''-'' else []) @ replicate (width - length buf) (CHR ''0'') @ buf)"

text \<open>
  \<open>Time.Format\<close>, for the numeric date and clock elements of a layout: \<open>2006\<close>, \<open>01\<close>,
  \<open>02\<close>, \<open>15\<close>, \<open>04\<close>, \<open>05\<close>. Every other byte is copied. The textual and zone elements
  of Go's layout language (\<open>Jan\<close>, \<open>Mon\<close>, \<open>PM\<close>, \<open>MST\<close>, \<open>-07\<close>, \<open>Z07\<close>, fractions of a
  second, the unpadded \<open>1\<close>, \<open>2\<close>, \<open>3\<close>, \<open>4\<close>, \<open>5\<close>, and \<open>06\<close>, \<open>03\<close>) are outside this
  model; none of them occurs in \<open>archiveNameDateFormat\<close>.
\<close>

fun Format :: "gotime \<Rightarrow> string \<Rightarrow> string" where
  "Format t [] = []"
| "Format t (c # cs) =
     (if take 4 (c # cs) = ''2006'' then appendInt (Year t) 4 @ Format t (drop 3 cs)
      else if take 2 (c # cs) = ''01'' then appendInt (int (Month t)) 2 @ Format t (drop 1 cs)
      else if take 2 (c # cs) = ''02'' then appendInt (int (Day t)) 2 @ Format t (drop 1 cs)
      else if take 2 (c # cs) = ''15'' then appendInt (int (Hour t)) 2 @ Format t (drop 1 cs)
      else if take 2 (c # cs) = ''04'' then appendInt (int (Minute t)) 2 @ Format t (drop 1 cs)
      else if take 2 (c # cs) = ''05'' then appendInt (int (Second t)) 2 @ Format t (drop 1 cs)
      else c # Format t cs)"

text \<open>
  \<open>fmt.Sprintf\<close>, for the verb \<open>%s\<close> with string operands, the only verb of the
  program's format; a verb with no operand left prints \<open>%!s(MISSING)\<close>.
\<close>

fun Sprintf :: "string \<Rightarrow> string list \<Rightarrow> string" where
  "Sprintf [] args = []"
| "Sprintf [c] args = [c]"
| "Sprintf (c # d # fs) args =
     (if c = CHR ''%'' \<and> d = CHR ''s''
      then (case args of
              [] \<Rightarrow> ''%!s(MISSING)'' @ Sprintf fs []
            | a # as \<Rightarrow> a @ Sprintf fs as)
      else c # Sprintf (d # fs) args)"

text \<open>The archive name as \<open>runOuter\<close> computes it (main file, line 125).\<close>

definition archiveNameOf :: "gotime \<Rightarrow> string \<Rightarrow> string" where
  "archiveNameOf now env' =
     Sprintf ''neo4j_backup_%s_%s.tar.gz'' [Format now archiveNameDateFormat, env']"

subsection \<open>The main file\<close>

text \<open>\<open>newBucketWriter\<close> (main file, lines 208-215).\<close>

definition newBucketWriter ::
  "world \<Rightarrow> string \<Rightarrow> string \<Rightarrow> string \<Rightarrow> string \<Rightarrow> string \<Rightarrow> event list
     \<Rightarrow> (error + handle) \<times> event list" where
  "newBucketWriter w awsAccessKey' awsSecretKey' s3Domain' bucketName' archiveName tr =
     (let res = getWriter w tr awsAccessKey' awsSecretKey' s3Domain' bucketName' archiveName;
          tr1 = tr @ [CallGetWriter archiveName res]
      in case res of
           Inl err \<Rightarrow> (res, tr1 @ [Log ErrorLevel (''BucketWriter cannot be created: '' @ err)])
         | Inr bucketWriter \<Rightarrow> (res, tr1))"

text \<open>
  \<open>uploadToS3\<close> (main file, lines 217-228). The deferred \<open>bucketWriter.Close()\<close> runs
  when the function returns, on either return.
\<close>

definition uploadToS3 :: "world \<Rightarrow> handle \<Rightarrow> handle \<Rightarrow> event list \<Rightarrow> error option \<times> event list" where
  "uploadToS3 w bucketWriter pipeReader tr =
     (let err = ioCopy w tr bucketWriter pipeReader;
          tr1 = tr @ [CallCopy bucketWriter pipeReader err]
      in case err of
           Some e \<Rightarrow>
             (err, tr1 @ [Log ErrorLevel (''Cannot upload archive to S3: '' @ e),
                          CallCloseWriter bucketWriter])
         | None \<Rightarrow>
             (None, tr1 @ [CallCloseReader pipeReader, CallCloseWriter bucketWriter]))"

text \<open>One call of \<open>rsync\<close>, recorded with its outcome.\<close>

definition callRsync :: "world \<Rightarrow> string \<Rightarrow> string \<Rightarrow> event list \<Rightarrow> error option \<times> event list" where
  "callRsync w src dst tr = (let err = rsync w tr src dst in (err, tr @ [CallRsync src dst err]))"

text \<open>\<open>runInner\<close> (main file, lines 136-206).\<close>

definition runInner ::
  "world \<Rightarrow> fleetAPI \<Rightarrow> handle \<Rightarrow> string \<Rightarrow> string \<Rightarrow> string \<Rightarrow> event list
     \<Rightarrow> error option \<times> event list" where
  "runInner w fleetClient bucketWriter dataFolder' targetFolder' archiveName tr =
     (let tr1 = tr @ [Log InfoLevel ''Starting first hot rsync process.''];
          (err, tr2) = callRsync w dataFolder' targetFolder' tr1;
          tr3 = (if err \<noteq> None
                 then (let tr' = tr2 @ [Log WarnLevel
                             ''Error synchronising neo4j files while database is running (i.e. hot); re-trying once.''];
                           (err, tr'') = callRsync w dataFolder' targetFolder' tr'
                       in if err \<noteq> None
                          then tr'' @ [Log WarnLevel
                             ''Encountered another error synchronising neo4j files while database is running (i.e. hot); backup process failed to complete successfully. The cold backup phase will consequently take longer than usual.'']
                          else tr'')
                 else tr2);
          tr4 = tr3 @ [Log InfoLevel ''Hot rsync completed, shutting down neo...''];
          (err, tr5) = shutDownNeo fleetClient tr4
      in if err \<noteq> None
         then (err, tr5 @ [Log ErrorLevel ''Error shutting down neo4j; backup process failed.''])
         else
     (let tr6 = tr5 @ [Log InfoLevel ''Starting cold rsync process...''];
          (err, tr7) = callRsync w dataFolder' targetFolder' tr6
      in if err \<noteq> None
         then (err, tr7 @ [Log ErrorLevel
                 ''Error synchronising neo4j files while database is stopped; backup process failed.''])
         else
     (let tr8 = tr7 @ [Log InfoLevel ''cold rsync completed, restarting neo...''];
          (err, tr9) = startNeo fleetClient tr8
      in if err \<noteq> None
         then (err, tr9 @ [Log ErrorLevel ''Error starting up neo4j.''])
         else
     (let tr10 = tr9 @ [Log InfoLevel ''neo has been started up, commencing archive creation...''];
          res = createBackup w tr10 targetFolder' archiveName;
          tr11 = tr10 @ [CallCreateBackup targetFolder' archiveName res]
      in case res of
           Inl err \<Rightarrow> (Some err, tr11 @ [Log ErrorLevel ''Error creating backup tarball.''])
         | Inr pipeReader \<Rightarrow>
     (let tr12 = tr11 @ [Log InfoLevel
                   ''Initial tar/gzip archive created, streaming data to S3 as it is added to the archive...''];
          (err, tr13) = uploadToS3 w bucketWriter pipeReader tr12
      in if err \<noteq> None
         then (err, tr13 @ [Log ErrorLevel ''Error uploading to S3; backup process failed.''])
         else (None, tr13 @ [CallValidateEnvironment,
                 Log InfoLevel ''Artefact successfully uploaded to S3; backup process complete.'']))))))"

text \<open>\<open>runOuter\<close> (main file, lines 114-134).\<close>

definition runOuter :: "world \<Rightarrow> config \<Rightarrow> event list \<Rightarrow> error option proc \<times> event list" where
  "runOuter w cfg tr =
     (case newFleetClient w (fleetEndpoint cfg) (socksProxy cfg) tr of
        (Exits n, tr1) \<Rightarrow> (Exits n, tr1)
      | (Returns (Inl err), tr1) \<Rightarrow>
          (Returns (Some err),
           tr1 @ [Log ErrorLevel ''Error instantiating fleet client; backup process failed.''])
      | (Returns (Inr fleetClient), tr1) \<Rightarrow>
          (let archiveName = archiveNameOf (nowUTC w tr1) (env cfg)
           in case newBucketWriter w (awsAccessKey cfg) (awsSecretKey cfg) (s3Domain cfg)
                     (bucketName cfg) archiveName tr1 of
                (Inl err, tr2) \<Rightarrow>
                  (Returns (Some err),
                   tr2 @ [Log ErrorLevel ''Error instantiating S3 bucket writer; backup process failed.''])
              | (Inr bucketWriter, tr2) \<Rightarrow>
                  (case runInner w fleetClient bucketWriter (dataFolder cfg) (targetFolder cfg)
                          archiveName tr2 of
                     (err, tr3) \<Rightarrow> (Returns err, tr3))))"

text \<open>
  \<open>main\<close> (main file, lines 29-112), for a run in which \<open>app.Run\<close> parses the flags into
  \<open>cfg\<close> and calls the action: the exit status of the process and its trace. The
  action exits with status 1 on an error of \<open>runOuter\<close>; otherwise it returns nil,
  \<open>app.Run\<close> and \<open>main\<close> return, and the status is 0. The two log lines of
  \<open>main\<close> carry the start time and the duration, which the trace leaves out.
\<close>

definition main :: "world \<Rightarrow> config \<Rightarrow> nat \<times> event list" where
  "main w cfg =
     (let tr0 = [Log InfoLevel ''Starting backup operation.'']
      in case runOuter w cfg tr0 of
           (Exits n, tr1) \<Rightarrow> (n, tr1)
         | (Returns err, tr1) \<Rightarrow>
             (if err \<noteq> None then (1, tr1)
              else (0, tr1 @ [Log InfoLevel ''Backup process complete.''])))"

subsection \<open>Reading a trace\<close>

text \<open>The kinds of events that the properties speak of.\<close>

fun isLog :: "event \<Rightarrow> bool" where
  "isLog (Log l m) = True"
| "isLog _ = False"

fun isSetTarget :: "event \<Rightarrow> bool" where
  "isSetTarget (CallSetUnitTargetState n s r) = True"
| "isSetTarget _ = False"

fun isStopRequest :: "event \<Rightarrow> bool" where
  "isStopRequest (CallSetUnitTargetState n s r) = (n = ''neo4j-red@1.service'' \<and> s = ''inactive'')"
| "isStopRequest _ = False"

fun isStartRequest :: "event \<Rightarrow> bool" where
  "isStartRequest (CallSetUnitTargetState n s r) = (n = ''neo4j-red@1.service'' \<and> s = ''launched'')"
| "isStartRequest _ = False"

fun isUnitStates :: "event \<Rightarrow> bool" where
  "isUnitStates (CallUnitStates r) = True"
| "isUnitStates _ = False"

fun isRsync :: "event \<Rightarrow> bool" where
  "isRsync (CallRsync s d r) = True"
| "isRsync _ = False"

fun isArchiveOrUpload :: "event \<Rightarrow> bool" where
  "isArchiveOrUpload (CallCreateBackup d a r) = True"
| "isArchiveOrUpload (CallCopy b p r) = True"
| "isArchiveOrUpload (CallCloseWriter b) = True"
| "isArchiveOrUpload (CallCloseReader p) = True"
| "isArchiveOrUpload CallValidateEnvironment = True"
| "isArchiveOrUpload _ = False"

text \<open>
  A roster shows the deployer inactive when its first entry named \<open>deployer.service\<close>
  is not in the active state, or when it has no such entry.
\<close>

definition deployerInactive :: "UnitState list \<Rightarrow> bool" where
  "deployerInactive R =
     (case find (\<lambda>u. Name u = ''deployer.service'') R of
        None \<Rightarrow> True
      | Some u \<Rightarrow> SystemdActiveState u \<noteq> ''active'')"

text \<open>An error-free roster query that shows the deployer inactive.\<close>

fun isInactiveObservation :: "event \<Rightarrow> bool" where
  "isInactiveObservation (CallUnitStates (Inr R)) = deployerInactive R"
| "isInactiveObservation _ = False"

fun isConnect :: "event \<Rightarrow> bool" where
  "isConnect (CallSOCKS5 p r) = True"
| "isConnect (CallNewHTTPClient u r) = True"
| "isConnect _ = False"

fun isCloseWriter :: "event \<Rightarrow> bool" where
  "isCloseWriter (CallCloseWriter b) = True"
| "isCloseWriter _ = False"

text \<open>
  The steps of the backup proper: a sync, a roster query, a target-state request, and the
  archive and upload calls.
\<close>

definition isBackupStep :: "event \<Rightarrow> bool" where
  "isBackupStep e = (isRsync e \<or> isUnitStates e \<or> isSetTarget e \<or> isArchiveOrUpload e)"

text \<open>
  An event whose outcome stops the run or is an error: a roster query that failed or that
  shows the deployer active, and any other call that returned an error.
\<close>

fun isFailure :: "event \<Rightarrow> bool" where
  "isFailure (CallUnitStates q) = (\<not> isInactiveObservation (CallUnitStates q))"
| "isFailure (CallRsync s d r) = (r \<noteq> None)"
| "isFailure (CallSetUnitTargetState n s r) = (r \<noteq> None)"
| "isFailure (CallCreateBackup d a r) = (case r of Inl e \<Rightarrow> True | Inr p \<Rightarrow> False)"
| "isFailure (CallCopy b p r) = (r \<noteq> None)"
| "isFailure _ = False"

text \<open>
  The cold syncs of a run: the \<open>rsync\<close> calls from the stop request for
  \<open>neo4j-red@1.service\<close> on.
\<close>

definition coldSyncs :: "event list \<Rightarrow> event list" where
  "coldSyncs evs = filter isRsync (dropWhile (Not \<circ> isStopRequest) evs)"

text \<open>A failed call of the setup: the proxy dialer, the fleet client, the writer provider.\<close>

fun isSetupFailure :: "event \<Rightarrow> bool" where
  "isSetupFailure (CallSOCKS5 p r) = (r \<noteq> None)"
| "isSetupFailure (CallNewHTTPClient u r) = (r \<noteq> None)"
| "isSetupFailure (CallGetWriter an r) = (case r of Inl e \<Rightarrow> True | Inr h \<Rightarrow> False)"
| "isSetupFailure _ = False"

text \<open>
  A failure that the pipeline treats as fatal, read from the world and the trace of a run:
  the URL of the fleet endpoint does not parse; a call of the setup fails; or, from the
  roster query on, a call other than the start request fails (the roster query, or a
  deployer that it shows active; the stop request; the cold sync; the archive; the copy).
  The syncs before the roster query are the hot syncs.
\<close>

definition fatalStageFailure :: "world \<Rightarrow> config \<Rightarrow> event list \<Rightarrow> bool" where
  "fatalStageFailure w cfg evs =
     ((case urlParse w (fleetEndpoint cfg) of Inl e \<Rightarrow> True | Inr u \<Rightarrow> False)
      \<or> filter isSetupFailure evs \<noteq> []
      \<or> filter (\<lambda>f. isFailure f \<and> \<not> isStartRequest f) (dropWhile (Not \<circ> isUnitStates) evs) \<noteq> [])"

subsection \<open>The stages of runInner\<close>

text \<open>
  The body of \<open>runInner\<close>, cut where it returns: the hot sync (main file, lines
  144-166), the cold sync and what follows (lines 172-206), the restart and what follows
  (lines 185-206), the archive and the upload (lines 191-206). Lemma
  \<open>runInner_stages\<close> below shows that \<open>runInner\<close> is their composition with
  \<open>shutDownNeo\<close>.
\<close>

definition hotSync :: "world \<Rightarrow> string \<Rightarrow> string \<Rightarrow> event list \<Rightarrow> event list" where
  "hotSync w dataFolder' targetFolder' tr =
     (let tr1 = tr @ [Log InfoLevel ''Starting first hot rsync process.''];
          (err, tr2) = callRsync w dataFolder' targetFolder' tr1;
          tr3 = (if err \<noteq> None
                 then (let tr' = tr2 @ [Log WarnLevel
                             ''Error synchronising neo4j files while database is running (i.e. hot); re-trying once.''];
                           (err, tr'') = callRsync w dataFolder' targetFolder' tr'
                       in if err \<noteq> None
                          then tr'' @ [Log WarnLevel
                             ''Encountered another error synchronising neo4j files while database is running (i.e. hot); backup process failed to complete successfully. The cold backup phase will consequently take longer than usual.'']
                          else tr'')
                 else tr2)
      in tr3 @ [Log InfoLevel ''Hot rsync completed, shutting down neo...''])"

definition archiveAndUpload ::
  "world \<Rightarrow> handle \<Rightarrow> string \<Rightarrow> string \<Rightarrow> event list \<Rightarrow> error option \<times> event list" where
  "archiveAndUpload w bucketWriter targetFolder' archiveName tr9 =
     (let tr10 = tr9 @ [Log InfoLevel ''neo has been started up, commencing archive creation...''];
          res = createBackup w tr10 targetFolder' archiveName;
          tr11 = tr10 @ [CallCreateBackup targetFolder' archiveName res]
      in case res of
           Inl err \<Rightarrow> (Some err, tr11 @ [Log ErrorLevel ''Error creating backup tarball.''])
         | Inr pipeReader \<Rightarrow>
     (let tr12 = tr11 @ [Log InfoLevel
                   ''Initial tar/gzip archive created, streaming data to S3 as it is added to the archive...''];
          (err, tr13) = uploadToS3 w bucketWriter pipeReader tr12
      in if err \<noteq> None
         then (err, tr13 @ [Log ErrorLevel ''Error uploading to S3; backup process failed.''])
         else (None, tr13 @ [CallValidateEnvironment,
                 Log InfoLevel ''Artefact successfully uploaded to S3; backup process complete.''])))"

definition restartAndArchive ::
  "world \<Rightarrow> fleetAPI \<Rightarrow> handle \<Rightarrow> string \<Rightarrow> string \<Rightarrow> event list \<Rightarrow> error option \<times> event list" where
  "restartAndArchive w fleetClient bucketWriter targetFolder' archiveName tr7 =
     (let tr8 = tr7 @ [Log InfoLevel ''cold rsync completed, restarting neo...''];
          (err, tr9) = startNeo fleetClient tr8
      in if err \<noteq> None
         then (err, tr9 @ [Log ErrorLevel ''Error starting up neo4j.''])
         else archiveAndUpload w bucketWriter targetFolder' archiveName tr9)"

definition coldSyncOnwards ::
  "world \<Rightarrow> fleetAPI \<Rightarrow> handle \<Rightarrow> string \<Rightarrow> string \<Rightarrow> string \<Rightarrow> event list
     \<Rightarrow> error option \<times> event list" where
  "coldSyncOnwards w fleetClient bucketWriter dataFolder' targetFolder' archiveName tr5 =
     (let tr6 = tr5 @ [Log InfoLevel ''Starting cold rsync process...''];
          (err, tr7) = callRsync w dataFolder' targetFolder' tr6
      in if err \<noteq> None
         then (err, tr7 @ [Log ErrorLevel
                 ''Error synchronising neo4j files while database is stopped; backup process failed.''])
         else restartAndArchive w fleetClient bucketWriter targetFolder' archiveName tr7)"

subsection \<open>The archive name as the specification writes it\<close>






subsection \<open>Concrete fleets, worlds and configuration\<close>

definition unitState :: "string \<Rightarrow> string \<Rightarrow> UnitState" where
  "unitState n st = \<lparr>Name = n, SystemdActiveState = st, SystemdLoadState = ''loaded''\<rparr>"

text \<open>A fleet that answers every roster query with \<open>R\<close> and accepts every request.\<close>

definition fleetWith :: "UnitState list \<Rightarrow> fleetAPI" where
  "fleetWith R = \<lparr>UnitStates = (\<lambda>tr. Inr R), SetUnitTargetState = (\<lambda>tr n s. None)\<rparr>"

text \<open>A fleet that cannot be reached.\<close>

definition fleetDown :: fleetAPI where
  "fleetDown = \<lparr>UnitStates = (\<lambda>tr. Inl ''connection refused''),
                 SetUnitTargetState = (\<lambda>tr n s. Some ''connection refused'')\<rparr>"

text \<open>A fleet whose deployer is inactive.\<close>

definition idleFleet :: fleetAPI where
  "idleFleet = fleetWith [unitState ''deployer.service'' ''inactive'']"

text \<open>A fleet whose deployer is inactive and that rejects every start request.\<close>

definition noStartFleet :: fleetAPI where
  "noStartFleet = \<lparr>UnitStates = (\<lambda>tr. Inr [unitState ''deployer.service'' ''inactive'']),
       SetUnitTargetState = (\<lambda>tr n s. if s = ''launched'' then Some ''unit not found'' else None)\<rparr>"

text \<open>A world in which every collaborator succeeds.\<close>

definition okWorld :: world where
  "okWorld = \<lparr>urlParse = (\<lambda>s. Inr s), SOCKS5 = (\<lambda>tr p. None),
     NewHTTPClient = (\<lambda>tr u. Inr idleFleet),
     nowUTC = (\<lambda>tr. \<lparr>Year = 2016, Month = 9, Day = 5, Hour = 7, Minute = 30, Second = 0\<rparr>),
     getWriter = (\<lambda>tr k s d b a. Inr 1), rsync = (\<lambda>tr s d. None),
     createBackup = (\<lambda>tr d a. Inr 2), ioCopy = (\<lambda>tr b p. None)\<rparr>"

text \<open>
  Worlds in which one collaborator fails: every sync before the roster query, every sync
  after the stop request, the copy, the writer provider, the URL parser, the proxy dialer.
\<close>

definition hotFailWorld :: world where
  "hotFailWorld = okWorld\<lparr>rsync :=
     (\<lambda>tr s d. if filter isUnitStates tr = [] then Some ''rsync: exit status 23'' else None)\<rparr>"

definition coldFailWorld :: world where
  "coldFailWorld = okWorld\<lparr>rsync :=
     (\<lambda>tr s d. if filter isStopRequest tr \<noteq> [] then Some ''rsync: exit status 23'' else None)\<rparr>"

definition copyFailWorld :: world where
  "copyFailWorld = okWorld\<lparr>ioCopy := (\<lambda>tr b p. Some ''write: broken pipe'')\<rparr>"

definition noWriterWorld :: world where
  "noWriterWorld = okWorld\<lparr>getWriter := (\<lambda>tr k s d b a. Inl ''access denied'')\<rparr>"

definition badUrlWorld :: world where
  "badUrlWorld = okWorld\<lparr>urlParse := (\<lambda>s. Inl ''parse error'')\<rparr>"

definition badProxyWorld :: world where
  "badProxyWorld = okWorld\<lparr>SOCKS5 := (\<lambda>tr p. Some ''unknown network'')\<rparr>"

text \<open>The default values of the flags, with an environment tag and credentials.\<close>

definition testConfig :: config where
  "testConfig = \<lparr>fleetEndpoint = ''http://localhost:49153'', socksProxy = [], awsAccessKey = ''key'',
     awsSecretKey = ''secret'', dataFolder = ''/data/graph.db/'', targetFolder = ''/data/graph.db.backup'',
     s3Domain = ''s3-eu-west-1.amazonaws.com'', bucketName = ''com.ft.universalpublishing.backup-data'',
     env = ''prod-uk''\<rparr>"

section \<open>Properties of the fleet operations\<close>

lemma scanUnits_find:
  "scanUnits R N =
     (case find (\<lambda>u. Name u = N) R of
        None \<Rightarrow> (False, False, [])
      | Some u \<Rightarrow> (SystemdActiveState u = ''active'', True, [Log InfoLevel ''Processing service.'']))"
  by (induction R) auto

text \<open>The first element of a list that satisfies \<open>P\<close>, by its index.\<close>

lemma find_first_index:
  "(case find P R of None \<Rightarrow> False | Some u \<Rightarrow> Q u) =
     (\<exists>i<length R. P (R ! i) \<and> Q (R ! i) \<and> (\<forall>j<i. \<not> P (R ! j)))"
proof (induction R)
  case Nil
  then show ?case by simp
next
  case (Cons a R)
  show ?case
  proof (cases "P a")
    case True
    have "(\<exists>i<length (a # R). P ((a # R) ! i) \<and> Q ((a # R) ! i) \<and> (\<forall>j<i. \<not> P ((a # R) ! j)))
        = Q a" (is "?L = _")
    proof
      assume ?L
      then obtain i where i: "Q ((a # R) ! i)" "\<forall>j<i. \<not> P ((a # R) ! j)" by blast
      from i(2) True have "i = 0" by (cases i) auto
      with i(1) show "Q a" by simp
    next
      assume "Q a"
      with True show ?L by (intro exI[of _ 0]) simp
    qed
    with True show ?thesis by simp
  next
    case False
    have "(\<exists>i<length (a # R). P ((a # R) ! i) \<and> Q ((a # R) ! i) \<and> (\<forall>j<i. \<not> P ((a # R) ! j)))
        = (\<exists>i<length R. P (R ! i) \<and> Q (R ! i) \<and> (\<forall>j<i. \<not> P (R ! j)))" (is "?L = ?R")
    proof
      assume ?L
      then obtain i where i: "i < length (a # R)" "P ((a # R) ! i)" "Q ((a # R) ! i)"
        "\<forall>j<i. \<not> P ((a # R) ! j)" by blast
      with False obtain k where k: "i = Suc k" by (cases i) auto
      have "\<forall>j<k. \<not> P (R ! j)" using i(4) k by (metis Suc_less_eq nth_Cons_Suc)
      with i k show ?R by auto
    next
      assume ?R
      then obtain i where i: "i < length R" "P (R ! i)" "Q (R ! i)" "\<forall>j<i. \<not> P (R ! j)" by blast
      have "\<forall>j<Suc i. \<not> P ((a # R) ! j)" using i(4) False by (auto simp: less_Suc_eq_0_disj)
      with i show ?L by (intro exI[of _ "Suc i"]) auto
    qed
    with False Cons show ?thesis by simp
  qed
qed

text \<open>On a list with distinct keys, the first element with a key is the only one.\<close>

lemma find_distinct_names:
  "distinct (map f R) \<Longrightarrow>
     (case find (\<lambda>u. f u = N) R of None \<Rightarrow> False | Some u \<Rightarrow> Q u) = (\<exists>u\<in>set R. f u = N \<and> Q u)"
proof (induction R)
  case Nil
  then show ?case by simp
next
  case (Cons a R)
  show ?case
  proof (cases "f a = N")
    case True
    with Cons.prems have "\<forall>u\<in>set R. f u \<noteq> N" by (metis distinct.simps(2) image_eqI list.simps(9) set_map)
    with True show ?thesis by auto
  next
    case False
    with Cons show ?thesis by simp
  qed
qed

lemma isServiceActive_result:
  "UnitStates fc tr = Inr R \<Longrightarrow>
     fst (isServiceActive fc N tr) =
       ((case find (\<lambda>u. Name u = N) R of None \<Rightarrow> False | Some u \<Rightarrow> SystemdActiveState u = ''active''), None)"
  by (simp add: isServiceActive_def scanUnits_find Let_def split: option.splits)

lemma shutDownNeo_events:
  "snd (shutDownNeo fc tr) = tr @
     (case UnitStates fc tr of
        Inl e \<Rightarrow> [CallUnitStates (Inl e),
                  Log ErrorLevel ''Could not retrieve list of units from fleet API, do you need to start a SOCKS proxy?'',
                  Log ErrorLevel deployerProblem]
      | Inr R \<Rightarrow>
          CallUnitStates (Inr R) # Log InfoLevel ''Retrieved services from fleet API.'' #
          (case find (\<lambda>u. Name u = ''deployer.service'') R of
             None \<Rightarrow> [Log WarnLevel ''Could not find service in list of services, assuming the service is inactive.'']
           | Some u \<Rightarrow> [Log InfoLevel ''Processing service.'']) @
          (if deployerInactive R
           then (let r = SetUnitTargetState fc (snd (isServiceActive fc ''deployer.service'' tr))
                           ''neo4j-red@1.service'' ''inactive''
                 in [CallSetUnitTargetState ''neo4j-red@1.service'' ''inactive'' r,
                     if r \<noteq> None then Log ErrorLevel ''Problem setting unit target state!''
                     else Log InfoLevel ''Set unit target state successfully.''])
           else [Log ErrorLevel deployerProblem]))"
  by (simp add: shutDownNeo_def isServiceActive_def setTargetState_def scanUnits_find
      deployerInactive_def Let_def split: sum.splits option.splits)

lemma shutDownNeo_result:
  "fst (shutDownNeo fc tr) =
     (case UnitStates fc tr of
        Inl e \<Rightarrow> Some e
      | Inr R \<Rightarrow>
          (if deployerInactive R
           then SetUnitTargetState fc (snd (isServiceActive fc ''deployer.service'' tr))
                           ''neo4j-red@1.service'' ''inactive''
           else Some deployerProblem))"
  by (simp add: shutDownNeo_def isServiceActive_def setTargetState_def scanUnits_find
      deployerInactive_def Let_def split: sum.splits option.splits)

lemma isServiceActive_obs:
  "fst (isServiceActive fc ''deployer.service'' tr) = (False, None) \<longleftrightarrow>
     (\<exists>R. UnitStates fc tr = Inr R \<and> deployerInactive R)"
  by (auto simp add: isServiceActive_def scanUnits_find
      deployerInactive_def Let_def split: sum.splits option.splits)

text \<open>
  C1. Within \<open>shutDownNeo\<close>, started at any trace \<open>tr\<close>: when \<open>isServiceActive\<close> does
  not report (false, nil) for \<open>deployer.service\<close> (it reports the deployer active, or the
  roster query failed), \<open>shutDownNeo\<close> returns a non-nil error and calls
  \<open>SetUnitTargetState\<close> not at all; a failed roster query returns its own error. When
  a target-state request is made, the report was (false, nil), the only request is the
  stop request for \<open>neo4j-red@1.service\<close>, and an error-free roster query showing the
  deployer inactive comes before it in the trace.
\<close>

theorem shutDownNeo_fail_closed:
  "(let obs = fst (isServiceActive fc ''deployer.service'' tr);
        evs = drop (length tr) (snd (shutDownNeo fc tr))
    in (obs \<noteq> (False, None) \<longrightarrow>
          fst (shutDownNeo fc tr) \<noteq> None \<and> filter isSetTarget evs = [])
     \<and> (\<forall>e. UnitStates fc tr = Inl e \<longrightarrow>
          fst (shutDownNeo fc tr) = Some e \<and> filter isSetTarget evs = [])
     \<and> (filter isSetTarget evs \<noteq> [] \<longrightarrow>
          obs = (False, None)
          \<and> (\<exists>r. filter isSetTarget evs = [CallSetUnitTargetState ''neo4j-red@1.service'' ''inactive'' r])
          \<and> filter isInactiveObservation (takeWhile (Not \<circ> isSetTarget) evs) \<noteq> []))"
  unfolding Let_def isServiceActive_obs
  by (auto simp add: shutDownNeo_events shutDownNeo_result Let_def split: sum.splits option.splits)

theorem shutDownNeo_fail_closed_witness:
  "fst (isServiceActive (fleetWith [unitState ''deployer.service'' ''active'']) ''deployer.service'' [])
     = (True, None)
   \<and> fst (shutDownNeo (fleetWith [unitState ''deployer.service'' ''active'']) []) = Some deployerProblem
   \<and> filter isSetTarget (snd (shutDownNeo (fleetWith [unitState ''deployer.service'' ''active'']) [])) = []
   \<and> UnitStates fleetDown [] = Inl ''connection refused''
   \<and> fst (shutDownNeo fleetDown []) = Some ''connection refused''
   \<and> filter isSetTarget (snd (shutDownNeo fleetDown [])) = []
   \<and> fst (isServiceActive (fleetWith [unitState ''deployer.service'' ''inactive'']) ''deployer.service'' [])
     = (False, None)
   \<and> filter isSetTarget (snd (shutDownNeo (fleetWith [unitState ''deployer.service'' ''inactive'']) []))
     = [CallSetUnitTargetState ''neo4j-red@1.service'' ''inactive'' None]"
  using shutDownNeo_fail_closed [of "fleetWith [unitState ''deployer.service'' ''active'']" "[]"]
    shutDownNeo_fail_closed [of fleetDown "[]"]
    shutDownNeo_fail_closed [of "fleetWith [unitState ''deployer.service'' ''inactive'']" "[]"]
  by (simp add: shutDownNeo_def isServiceActive_def setTargetState_def fleetWith_def fleetDown_def
      unitState_def Let_def)

text \<open>
  C2, as the code has it. When the roster query succeeds with \<open>R\<close>, \<open>isServiceActive\<close>
  returns no error, and returns true iff the first entry of \<open>R\<close> named \<open>N\<close> is in the
  active state; when no entry of \<open>R\<close> is named \<open>N\<close> it returns (false, nil). On a
  roster whose names are distinct it returns true iff \<open>R\<close> has an entry named \<open>N\<close> in
  the active state.
\<close>

theorem isServiceActive_first_match:
  assumes "UnitStates fc tr = Inr R"
  shows "fst (isServiceActive fc N tr) =
           ((\<exists>i<length R. Name (R ! i) = N \<and> SystemdActiveState (R ! i) = ''active'' \<and>
                 (\<forall>j<i. Name (R ! j) \<noteq> N)), None)
         \<and> (N \<notin> Name ` set R \<longrightarrow> fst (isServiceActive fc N tr) = (False, None))
         \<and> (distinct (map Name R) \<longrightarrow>
               fst (isServiceActive fc N tr) =
                 ((\<exists>u\<in>set R. Name u = N \<and> SystemdActiveState u = ''active''), None))"
proof -
  have a: "fst (isServiceActive fc N tr) =
           ((\<exists>i<length R. Name (R ! i) = N \<and> SystemdActiveState (R ! i) = ''active'' \<and>
                 (\<forall>j<i. Name (R ! j) \<noteq> N)), None)"
    using isServiceActive_result[OF assms, of N]
      find_first_index[where P="\<lambda>u. Name u = N" and R=R and Q="\<lambda>u. SystemdActiveState u = ''active''"]
    by simp
  have "find (\<lambda>u. Name u = N) R = None" if "N \<notin> Name ` set R"
    using that by (auto simp: find_None_iff)
  then have b: "N \<notin> Name ` set R \<longrightarrow> fst (isServiceActive fc N tr) = (False, None)"
    using isServiceActive_result[OF assms, of N] by auto
  have c: "fst (isServiceActive fc N tr) =
       ((\<exists>u\<in>set R. Name u = N \<and> SystemdActiveState u = ''active''), None)"
    if "distinct (map Name R)"
    using isServiceActive_result[OF assms, of N]
      find_distinct_names[OF that, where N=N and Q="\<lambda>u. SystemdActiveState u = ''active''"]
    by simp
  show ?thesis using a b c by blast
qed

theorem isServiceActive_first_match_witness:
  "UnitStates (fleetWith [unitState ''neo4j-red@1.service'' ''active'', unitState ''deployer.service'' ''active'']) []
     = Inr [unitState ''neo4j-red@1.service'' ''active'', unitState ''deployer.service'' ''active'']
   \<and> fst (isServiceActive
        (fleetWith [unitState ''neo4j-red@1.service'' ''active'', unitState ''deployer.service'' ''active''])
        ''deployer.service'' []) = (True, None)
   \<and> ''absent.service''
        \<notin> Name ` set [unitState ''neo4j-red@1.service'' ''active'', unitState ''deployer.service'' ''active'']
   \<and> fst (isServiceActive
        (fleetWith [unitState ''neo4j-red@1.service'' ''active'', unitState ''deployer.service'' ''active''])
        ''absent.service'' []) = (False, None)
   \<and> distinct (map Name [unitState ''neo4j-red@1.service'' ''active'', unitState ''deployer.service'' ''active''])"
  using isServiceActive_first_match
    [of "fleetWith [unitState ''neo4j-red@1.service'' ''active'', unitState ''deployer.service'' ''active'']"
        "[]" "[unitState ''neo4j-red@1.service'' ''active'', unitState ''deployer.service'' ''active'']"
        "''deployer.service''"]
    isServiceActive_first_match
    [of "fleetWith [unitState ''neo4j-red@1.service'' ''active'', unitState ''deployer.service'' ''active'']"
        "[]" "[unitState ''neo4j-red@1.service'' ''active'', unitState ''deployer.service'' ''active'']"
        "''absent.service''"]
  by (simp add: isServiceActive_def fleetWith_def unitState_def Let_def)

text \<open>
  C2 as stated fails on a roster with two entries of one name, the first inactive and the
  second active: the roster has an entry of that name in the active state, and
  \<open>isServiceActive\<close> returns false.
\<close>

theorem isServiceActive_duplicate_counterexample:
  "UnitStates (fleetWith [unitState ''deployer.service'' ''inactive'', unitState ''deployer.service'' ''active'']) []
     = Inr [unitState ''deployer.service'' ''inactive'', unitState ''deployer.service'' ''active'']
   \<and> unitState ''deployer.service'' ''active''
       \<in> set [unitState ''deployer.service'' ''inactive'', unitState ''deployer.service'' ''active'']
   \<and> Name (unitState ''deployer.service'' ''active'') = ''deployer.service''
   \<and> SystemdActiveState (unitState ''deployer.service'' ''active'') = ''active''
   \<and> fst (isServiceActive
        (fleetWith [unitState ''deployer.service'' ''inactive'', unitState ''deployer.service'' ''active''])
        ''deployer.service'' []) = (False, None)"
  by (simp add: isServiceActive_def fleetWith_def unitState_def Let_def)

section \<open>Properties of the pipeline\<close>

subsection \<open>The stages and the shape of a run\<close>

lemmas run_defs = runInner_def callRsync_def shutDownNeo_def isServiceActive_def setTargetState_def
  startNeo_def uploadToS3_def Let_def

lemmas world_defs = okWorld_def hotFailWorld_def coldFailWorld_def copyFailWorld_def idleFleet_def
  noStartFleet_def fleetWith_def fleetDown_def unitState_def

lemmas outer_defs = main_def runOuter_def newFleetClient_def newBucketWriter_def testConfig_def
  noWriterWorld_def badUrlWorld_def badProxyWorld_def

lemma runInner_stages:
  "runInner w fc bw df tf an tr =
     (let (err, tr5) = shutDownNeo fc (hotSync w df tf tr)
      in if err \<noteq> None
         then (err, tr5 @ [Log ErrorLevel ''Error shutting down neo4j; backup process failed.''])
         else coldSyncOnwards w fc bw df tf an tr5)"
  by (simp add: runInner_def hotSync_def coldSyncOnwards_def restartAndArchive_def
      archiveAndUpload_def Let_def case_prod_beta)

lemma hotSync_shape:
  "\<exists>hs. hotSync w df tf tr = tr @ hs \<and> (\<forall>e\<in>set hs. isLog e \<or> isRsync e) \<and>
     (filter isRsync hs = [CallRsync df tf None] \<or>
      (\<exists>e1 r2. filter isRsync hs = [CallRsync df tf (Some e1), CallRsync df tf r2]))"
  by (auto simp: hotSync_def callRsync_def Let_def)

lemma shutDownNeo_shape:
  "\<exists>q pre post. snd (shutDownNeo fc t) = t @ CallUnitStates q # pre @ post \<and>
     (\<forall>x\<in>set pre. isLog x) \<and>
     (if isInactiveObservation (CallUnitStates q)
      then (\<exists>l m. post = [CallSetUnitTargetState ''neo4j-red@1.service'' ''inactive'' (fst (shutDownNeo fc t)),
                            Log l m] \<and> (fst (shutDownNeo fc t) \<noteq> None \<longrightarrow> l = ErrorLevel))
      else post = [] \<and> fst (shutDownNeo fc t) \<noteq> None \<and> pre \<noteq> [] \<and> (\<exists>m. last pre = Log ErrorLevel m))"
proof (cases "UnitStates fc t")
  case (Inl e)
  show ?thesis
    apply (rule exI[of _ "Inl e"])
    apply (rule exI[of _ "drop (Suc (length t)) (snd (shutDownNeo fc t))"])
    apply (rule exI[of _ "[]"])
    using Inl by (simp add: shutDownNeo_events shutDownNeo_result)
next
  case (Inr R)
  define mid where "mid = (case find (\<lambda>u. Name u = ''deployer.service'') R of
             None \<Rightarrow> [Log WarnLevel ''Could not find service in list of services, assuming the service is inactive.'']
           | Some u \<Rightarrow> [Log InfoLevel ''Processing service.''])"
  have mid: "\<forall>x\<in>set mid. isLog x" "mid \<noteq> []"
    by (simp_all add: mid_def split: option.splits)
  show ?thesis
  proof (cases "deployerInactive R")
    case True
    show ?thesis
      apply (rule exI[of _ "Inr R"])
      apply (rule exI[of _ "Log InfoLevel ''Retrieved services from fleet API.'' # mid"])
      apply (rule exI[of _ "drop (Suc (Suc (length t + length mid))) (snd (shutDownNeo fc t))"])
      using Inr True mid by (simp add: shutDownNeo_events shutDownNeo_result mid_def[symmetric] Let_def)
  next
    case False
    show ?thesis
      apply (rule exI[of _ "Inr R"])
      apply (rule exI[of _ "drop (Suc (length t)) (snd (shutDownNeo fc t))"])
      apply (rule exI[of _ "[]"])
      using Inr False mid by (simp add: shutDownNeo_events shutDownNeo_result mid_def[symmetric])
  qed
qed

lemma startNeo_shape:
  "\<exists>r l m. startNeo fc t =
     (None, t @ [Log InfoLevel ''Starting up neo4j...'',
                 CallSetUnitTargetState ''neo4j-red@1.service'' ''launched'' r, Log l m])"
  by (auto simp: startNeo_def setTargetState_def Let_def)

lemma archiveAndUpload_shape:
  "\<exists>ae. snd (archiveAndUpload w bw tf an t) = t @ ae \<and> ae \<noteq> [] \<and>
     (\<forall>x\<in>set ae. isLog x \<or> isArchiveOrUpload x) \<and>
     (fst (archiveAndUpload w bw tf an t) \<noteq> None \<longrightarrow>
        (\<exists>m. last ae = Log ErrorLevel m) \<and> filter isFailure ae \<noteq> []) \<and>
     (filter isFailure ae \<noteq> [] \<longrightarrow> fst (archiveAndUpload w bw tf an t) \<noteq> None)"
  by (auto simp: archiveAndUpload_def uploadToS3_def Let_def split: sum.splits option.splits)

lemma restartAndArchive_shape:
  "\<exists>m1 m2 r l m3 ae.
     snd (restartAndArchive w fc bw tf an t) =
       t @ [Log InfoLevel m1, Log InfoLevel m2,
            CallSetUnitTargetState ''neo4j-red@1.service'' ''launched'' r, Log l m3] @ ae \<and>
     ae \<noteq> [] \<and> (\<forall>x\<in>set ae. isLog x \<or> isArchiveOrUpload x) \<and>
     (fst (restartAndArchive w fc bw tf an t) \<noteq> None \<longrightarrow>
        (\<exists>m. last ae = Log ErrorLevel m) \<and> filter isFailure ae \<noteq> []) \<and>
     (filter isFailure ae \<noteq> [] \<longrightarrow> fst (restartAndArchive w fc bw tf an t) \<noteq> None)"
proof -
  obtain r l m where s: "startNeo fc (t @ [Log InfoLevel ''cold rsync completed, restarting neo...'']) =
     (None, (t @ [Log InfoLevel ''cold rsync completed, restarting neo...'']) @
              [Log InfoLevel ''Starting up neo4j...'',
                 CallSetUnitTargetState ''neo4j-red@1.service'' ''launched'' r, Log l m])"
    using startNeo_shape by blast
  define t9 where "t9 = t @ [Log InfoLevel ''cold rsync completed, restarting neo...'',
       Log InfoLevel ''Starting up neo4j...'',
       CallSetUnitTargetState ''neo4j-red@1.service'' ''launched'' r, Log l m]"
  have eq: "restartAndArchive w fc bw tf an t = archiveAndUpload w bw tf an t9"
    by (simp add: restartAndArchive_def s t9_def)
  obtain ae where ae: "snd (archiveAndUpload w bw tf an t9) = t9 @ ae" "ae \<noteq> []"
     "\<forall>x\<in>set ae. isLog x \<or> isArchiveOrUpload x"
     "fst (archiveAndUpload w bw tf an t9) \<noteq> None \<longrightarrow>
        (\<exists>m. last ae = Log ErrorLevel m) \<and> filter isFailure ae \<noteq> []"
     "filter isFailure ae \<noteq> [] \<longrightarrow> fst (archiveAndUpload w bw tf an t9) \<noteq> None"
    using archiveAndUpload_shape[of w bw tf an t9] by (elim exE conjE) (rule that)
  show ?thesis
    unfolding eq
    apply (rule exI[of _ "''cold rsync completed, restarting neo...''"])
    apply (rule exI[of _ "''Starting up neo4j...''"])
    apply (rule exI[of _ r], rule exI[of _ l], rule exI[of _ m], rule exI[of _ ae])
    using ae by (simp add: t9_def)
qed

lemma cold_fail:
  assumes "rsync w (t @ [Log InfoLevel ''Starting cold rsync process...'']) df tf = Some e"
  shows "coldSyncOnwards w fc bw df tf an t =
     (Some e, t @ [Log InfoLevel ''Starting cold rsync process...'', CallRsync df tf (Some e),
        Log ErrorLevel ''Error synchronising neo4j files while database is stopped; backup process failed.''])"
  using assms by (simp add: coldSyncOnwards_def callRsync_def Let_def)

lemma cold_ok:
  assumes "rsync w (t @ [Log InfoLevel ''Starting cold rsync process...'']) df tf = None"
  shows "coldSyncOnwards w fc bw df tf an t =
     restartAndArchive w fc bw tf an
       (t @ [Log InfoLevel ''Starting cold rsync process...'', CallRsync df tf None])"
  using assms by (simp add: coldSyncOnwards_def callRsync_def Let_def)

lemma cold_shape_ok:
  assumes "rsync w (t @ [Log InfoLevel ''Starting cold rsync process...'']) df tf = None"
  shows "\<exists>m m1 m2 r l m3 ae.
      snd (coldSyncOnwards w fc bw df tf an t) =
        t @ [Log InfoLevel m, CallRsync df tf None, Log InfoLevel m1, Log InfoLevel m2,
             CallSetUnitTargetState ''neo4j-red@1.service'' ''launched'' r, Log l m3] @ ae \<and>
      ae \<noteq> [] \<and> (\<forall>x\<in>set ae. isLog x \<or> isArchiveOrUpload x) \<and>
      (fst (coldSyncOnwards w fc bw df tf an t) \<noteq> None \<longrightarrow>
         (\<exists>m. last ae = Log ErrorLevel m) \<and> filter isFailure ae \<noteq> []) \<and>
      (filter isFailure ae \<noteq> [] \<longrightarrow> fst (coldSyncOnwards w fc bw df tf an t) \<noteq> None)"
proof -
  define t7 where "t7 = t @ [Log InfoLevel ''Starting cold rsync process...'', CallRsync df tf None]"
  have eq: "coldSyncOnwards w fc bw df tf an t = restartAndArchive w fc bw tf an t7"
    unfolding t7_def by (rule cold_ok[OF assms])
  from restartAndArchive_shape[of w fc bw tf an t7]
  obtain m1 m2 r l m3 ae where ae: "snd (restartAndArchive w fc bw tf an t7) =
     t7 @ [Log InfoLevel m1, Log InfoLevel m2,
          CallSetUnitTargetState ''neo4j-red@1.service'' ''launched'' r, Log l m3] @ ae"
   "ae \<noteq> []" "\<forall>x\<in>set ae. isLog x \<or> isArchiveOrUpload x"
   "fst (restartAndArchive w fc bw tf an t7) \<noteq> None \<longrightarrow>
      (\<exists>m. last ae = Log ErrorLevel m) \<and> filter isFailure ae \<noteq> []"
   "filter isFailure ae \<noteq> [] \<longrightarrow> fst (restartAndArchive w fc bw tf an t7) \<noteq> None"
    by (elim exE conjE) (rule that)
  have snd_eq: "snd (coldSyncOnwards w fc bw df tf an t) =
        t @ [Log InfoLevel ''Starting cold rsync process...'', CallRsync df tf None, Log InfoLevel m1, Log InfoLevel m2,
             CallSetUnitTargetState ''neo4j-red@1.service'' ''launched'' r, Log l m3] @ ae"
    by (simp only: eq ae(1)) (simp add: t7_def)
  show ?thesis
    using snd_eq ae(2,3,4,5) unfolding eq by blast
qed

text \<open>
  Every run of \<open>runInner\<close> has one of four shapes: the safety check fails; the stop
  request fails; the cold sync fails; or the service is restarted and the archive stage runs.
\<close>

lemma runInner_cases:
  obtains
    (safety) hs q pre m where
      "snd (runInner w fc bw df tf an tr) = tr @ hs @ CallUnitStates q # pre @ [Log ErrorLevel m]"
      "\<forall>e\<in>set hs. isLog e \<or> isRsync e"
      "filter isRsync hs = [CallRsync df tf None] \<or>
        (\<exists>e1 r2. filter isRsync hs = [CallRsync df tf (Some e1), CallRsync df tf r2])"
      "\<forall>x\<in>set pre. isLog x"
      "\<not> isInactiveObservation (CallUnitStates q)"
      "fst (runInner w fc bw df tf an tr) \<noteq> None"
      "snd (shutDownNeo fc (tr @ hs)) = tr @ hs @ CallUnitStates q # pre"
  | (stop) hs q pre e m m' where
      "snd (runInner w fc bw df tf an tr) = tr @ hs @ CallUnitStates q # pre @
         [CallSetUnitTargetState ''neo4j-red@1.service'' ''inactive'' (Some e),
          Log ErrorLevel m, Log ErrorLevel m']"
      "\<forall>e\<in>set hs. isLog e \<or> isRsync e"
      "filter isRsync hs = [CallRsync df tf None] \<or>
        (\<exists>e1 r2. filter isRsync hs = [CallRsync df tf (Some e1), CallRsync df tf r2])"
      "\<forall>x\<in>set pre. isLog x"
      "isInactiveObservation (CallUnitStates q)"
      "fst (runInner w fc bw df tf an tr) = Some e"
      "snd (shutDownNeo fc (tr @ hs)) = tr @ hs @ CallUnitStates q # pre @
         [CallSetUnitTargetState ''neo4j-red@1.service'' ''inactive'' (Some e), Log ErrorLevel m]"
  | (cold) hs q pre l m m' e m'' where
      "snd (runInner w fc bw df tf an tr) = tr @ hs @ CallUnitStates q # pre @
         [CallSetUnitTargetState ''neo4j-red@1.service'' ''inactive'' None, Log l m,
          Log InfoLevel m', CallRsync df tf (Some e), Log ErrorLevel m'']"
      "\<forall>e\<in>set hs. isLog e \<or> isRsync e"
      "filter isRsync hs = [CallRsync df tf None] \<or>
        (\<exists>e1 r2. filter isRsync hs = [CallRsync df tf (Some e1), CallRsync df tf r2])"
      "\<forall>x\<in>set pre. isLog x"
      "isInactiveObservation (CallUnitStates q)"
      "fst (runInner w fc bw df tf an tr) = Some e"
      "snd (shutDownNeo fc (tr @ hs)) = tr @ hs @ CallUnitStates q # pre @
         [CallSetUnitTargetState ''neo4j-red@1.service'' ''inactive'' None, Log l m]"
  | (restart) hs q pre l m m' m1 m2 r l' m3 ae where
      "snd (runInner w fc bw df tf an tr) = tr @ hs @ CallUnitStates q # pre @
         [CallSetUnitTargetState ''neo4j-red@1.service'' ''inactive'' None, Log l m,
          Log InfoLevel m', CallRsync df tf None, Log InfoLevel m1, Log InfoLevel m2,
          CallSetUnitTargetState ''neo4j-red@1.service'' ''launched'' r, Log l' m3] @ ae"
      "\<forall>e\<in>set hs. isLog e \<or> isRsync e"
      "filter isRsync hs = [CallRsync df tf None] \<or>
        (\<exists>e1 r2. filter isRsync hs = [CallRsync df tf (Some e1), CallRsync df tf r2])"
      "\<forall>x\<in>set pre. isLog x"
      "isInactiveObservation (CallUnitStates q)"
      "ae \<noteq> []" "\<forall>x\<in>set ae. isLog x \<or> isArchiveOrUpload x"
      "fst (runInner w fc bw df tf an tr) \<noteq> None \<longrightarrow>
         (\<exists>m. last ae = Log ErrorLevel m) \<and> filter isFailure ae \<noteq> []"
      "snd (shutDownNeo fc (tr @ hs)) = tr @ hs @ CallUnitStates q # pre @
         [CallSetUnitTargetState ''neo4j-red@1.service'' ''inactive'' None, Log l m]"
      "filter isFailure ae \<noteq> [] \<longrightarrow> fst (runInner w fc bw df tf an tr) \<noteq> None"
proof -
  obtain hs where hs: "hotSync w df tf tr = tr @ hs" "\<forall>e\<in>set hs. isLog e \<or> isRsync e"
     "filter isRsync hs = [CallRsync df tf None] \<or>
      (\<exists>e1 r2. filter isRsync hs = [CallRsync df tf (Some e1), CallRsync df tf r2])"
    using hotSync_shape[of w df tf tr] by (elim exE conjE) (rule that)
  define H where "H = hotSync w df tf tr"
  define sd where "sd = shutDownNeo fc H"
  have run: "runInner w fc bw df tf an tr =
     (if fst sd \<noteq> None
      then (fst sd, snd sd @ [Log ErrorLevel ''Error shutting down neo4j; backup process failed.''])
      else coldSyncOnwards w fc bw df tf an (snd sd))"
    by (simp add: runInner_stages sd_def H_def case_prod_beta)
  have "\<exists>q pre post. snd sd = H @ CallUnitStates q # pre @ post \<and>
     (\<forall>x\<in>set pre. isLog x) \<and>
     (if isInactiveObservation (CallUnitStates q)
      then (\<exists>l m. post = [CallSetUnitTargetState ''neo4j-red@1.service'' ''inactive'' (fst sd),
                            Log l m] \<and> (fst sd \<noteq> None \<longrightarrow> l = ErrorLevel))
      else post = [] \<and> fst sd \<noteq> None \<and> pre \<noteq> [] \<and> (\<exists>m. last pre = Log ErrorLevel m))"
    unfolding sd_def by (rule shutDownNeo_shape)
  then obtain q pre post where sh: "snd sd = H @ CallUnitStates q # pre @ post"
     "\<forall>x\<in>set pre. isLog x"
     "if isInactiveObservation (CallUnitStates q)
      then (\<exists>l m. post = [CallSetUnitTargetState ''neo4j-red@1.service'' ''inactive'' (fst sd),
                            Log l m] \<and> (fst sd \<noteq> None \<longrightarrow> l = ErrorLevel))
      else post = [] \<and> fst sd \<noteq> None \<and> pre \<noteq> [] \<and> (\<exists>m. last pre = Log ErrorLevel m)"
    by (elim exE conjE) (rule that)
  have H: "H = tr @ hs" by (simp add: H_def hs(1))
  show thesis
  proof (cases "isInactiveObservation (CallUnitStates q)")
    case False
    with sh(3) have p: "post = []" "fst sd \<noteq> None" by simp_all
    have "snd (runInner w fc bw df tf an tr) = tr @ hs @ CallUnitStates q # pre @
        [Log ErrorLevel ''Error shutting down neo4j; backup process failed.'']"
      by (simp add: run p sh(1) H)
    moreover have "fst (runInner w fc bw df tf an tr) \<noteq> None"
      using p by (simp add: run)
    moreover have "snd (shutDownNeo fc (tr @ hs)) = tr @ hs @ CallUnitStates q # pre"
      using sh(1) p by (simp add: sd_def H)
    ultimately show thesis using safety hs(2,3) sh(2) False by blast
  next
    case True
    with sh(3) obtain l m where p:
      "post = [CallSetUnitTargetState ''neo4j-red@1.service'' ''inactive'' (fst sd), Log l m]"
      "fst sd \<noteq> None \<longrightarrow> l = ErrorLevel" by auto
    show thesis
    proof (cases "fst sd")
      case (Some e)
      with p have l: "l = ErrorLevel" by simp
      have "snd (runInner w fc bw df tf an tr) = tr @ hs @ CallUnitStates q # pre @
         [CallSetUnitTargetState ''neo4j-red@1.service'' ''inactive'' (Some e),
          Log ErrorLevel m, Log ErrorLevel ''Error shutting down neo4j; backup process failed.'']"
        by (simp add: run Some p(1) l sh(1) H)
      moreover have "fst (runInner w fc bw df tf an tr) = Some e"
        by (simp add: run Some)
      moreover have "snd (shutDownNeo fc (tr @ hs)) = tr @ hs @ CallUnitStates q # pre @
         [CallSetUnitTargetState ''neo4j-red@1.service'' ''inactive'' (Some e), Log ErrorLevel m]"
        using sh(1) p(1) Some l by (simp add: sd_def H)
      ultimately show thesis using stop hs(2,3) sh(2) True by blast
    next
      case None
      define t5 where "t5 = tr @ hs @ CallUnitStates q # pre @
         [CallSetUnitTargetState ''neo4j-red@1.service'' ''inactive'' None, Log l m]"
      have t5: "snd sd = t5" by (simp add: t5_def sh(1) p(1) None H)
      have run5: "runInner w fc bw df tf an tr = coldSyncOnwards w fc bw df tf an t5"
        by (simp add: run None t5)
      have sdt: "snd (shutDownNeo fc (tr @ hs)) = tr @ hs @ CallUnitStates q # pre @
         [CallSetUnitTargetState ''neo4j-red@1.service'' ''inactive'' None, Log l m]"
        using t5 by (simp add: sd_def H t5_def)
      show thesis
      proof (cases "rsync w (t5 @ [Log InfoLevel ''Starting cold rsync process...'']) df tf")
        case (Some e)
        have "runInner w fc bw df tf an tr =
           (Some e, t5 @ [Log InfoLevel ''Starting cold rsync process...'', CallRsync df tf (Some e),
              Log ErrorLevel ''Error synchronising neo4j files while database is stopped; backup process failed.''])"
          unfolding run5 by (rule cold_fail[OF Some])
        then have "snd (runInner w fc bw df tf an tr) = tr @ hs @ CallUnitStates q # pre @
           [CallSetUnitTargetState ''neo4j-red@1.service'' ''inactive'' None, Log l m,
            Log InfoLevel ''Starting cold rsync process...'', CallRsync df tf (Some e),
            Log ErrorLevel ''Error synchronising neo4j files while database is stopped; backup process failed.'']"
          "fst (runInner w fc bw df tf an tr) = Some e"
          by (simp_all add: t5_def)
        then show thesis using cold hs(2,3) sh(2) True sdt by blast
      next
        case None
        from cold_shape_ok[OF None, of fc bw an]
        obtain m' m1 m2 r l' m3 ae where ae:
          "snd (coldSyncOnwards w fc bw df tf an t5) =
            t5 @ [Log InfoLevel m', CallRsync df tf None, Log InfoLevel m1, Log InfoLevel m2,
                 CallSetUnitTargetState ''neo4j-red@1.service'' ''launched'' r, Log l' m3] @ ae"
          "ae \<noteq> []" "\<forall>x\<in>set ae. isLog x \<or> isArchiveOrUpload x"
          "fst (coldSyncOnwards w fc bw df tf an t5) \<noteq> None \<longrightarrow>
             (\<exists>m. last ae = Log ErrorLevel m) \<and> filter isFailure ae \<noteq> []"
          "filter isFailure ae \<noteq> [] \<longrightarrow> fst (coldSyncOnwards w fc bw df tf an t5) \<noteq> None"
          by (elim exE conjE) (rule that)
        have "snd (runInner w fc bw df tf an tr) = tr @ hs @ CallUnitStates q # pre @
         [CallSetUnitTargetState ''neo4j-red@1.service'' ''inactive'' None, Log l m,
          Log InfoLevel m', CallRsync df tf None, Log InfoLevel m1, Log InfoLevel m2,
          CallSetUnitTargetState ''neo4j-red@1.service'' ''launched'' r, Log l' m3] @ ae"
          by (simp only: run5 ae(1)) (simp add: t5_def)
        then show thesis using restart[OF _ hs(2,3) sh(2) True ae(2,3) _ sdt] ae(4,5) unfolding run5 by blast
      qed
    qed
  qed
qed

lemma dropWhile_skip: "\<forall>x\<in>set xs. \<not> P x \<Longrightarrow> dropWhile (Not \<circ> P) (xs @ ys) = dropWhile (Not \<circ> P) ys"
  by (induction xs) auto

lemma takeWhile_skip: "\<forall>x\<in>set xs. \<not> P x \<Longrightarrow> takeWhile (Not \<circ> P) (xs @ ys) = xs @ takeWhile (Not \<circ> P) ys"
  by (induction xs) auto

lemma hot_kinds:
  assumes "\<forall>e\<in>set hs. isLog e \<or> isRsync e"
  shows "\<forall>e\<in>set hs. \<not> isUnitStates e" "\<forall>e\<in>set hs. \<not> isSetTarget e"
    "\<forall>e\<in>set hs. \<not> isStopRequest e" "\<forall>e\<in>set hs. \<not> isStartRequest e"
    "\<forall>e\<in>set hs. \<not> isArchiveOrUpload e"
proof -
  have "\<not> isUnitStates e \<and> \<not> isSetTarget e \<and> \<not> isStopRequest e \<and> \<not> isStartRequest e \<and>
      \<not> isArchiveOrUpload e" if "isLog e \<or> isRsync e" for e
    using that by (cases e) auto
  with assms show "\<forall>e\<in>set hs. \<not> isUnitStates e" "\<forall>e\<in>set hs. \<not> isSetTarget e"
    "\<forall>e\<in>set hs. \<not> isStopRequest e" "\<forall>e\<in>set hs. \<not> isStartRequest e"
    "\<forall>e\<in>set hs. \<not> isArchiveOrUpload e" by blast+
qed

lemma log_kinds:
  assumes "\<forall>e\<in>set pre. isLog e"
  shows "\<forall>e\<in>set pre. \<not> isUnitStates e" "\<forall>e\<in>set pre. \<not> isSetTarget e"
    "\<forall>e\<in>set pre. \<not> isStopRequest e" "\<forall>e\<in>set pre. \<not> isStartRequest e"
    "\<forall>e\<in>set pre. \<not> isArchiveOrUpload e" "\<forall>e\<in>set pre. \<not> isRsync e"
proof -
  have "\<not> isUnitStates e \<and> \<not> isSetTarget e \<and> \<not> isStopRequest e \<and> \<not> isStartRequest e \<and>
      \<not> isArchiveOrUpload e \<and> \<not> isRsync e" if "isLog e" for e
    using that by (cases e) auto
  with assms show "\<forall>e\<in>set pre. \<not> isUnitStates e" "\<forall>e\<in>set pre. \<not> isSetTarget e"
    "\<forall>e\<in>set pre. \<not> isStopRequest e" "\<forall>e\<in>set pre. \<not> isStartRequest e"
    "\<forall>e\<in>set pre. \<not> isArchiveOrUpload e" "\<forall>e\<in>set pre. \<not> isRsync e" by blast+
qed

lemma archive_kinds:
  assumes "\<forall>e\<in>set ae. isLog e \<or> isArchiveOrUpload e"
  shows "\<forall>e\<in>set ae. \<not> isUnitStates e" "\<forall>e\<in>set ae. \<not> isSetTarget e"
    "\<forall>e\<in>set ae. \<not> isStopRequest e" "\<forall>e\<in>set ae. \<not> isStartRequest e"
    "\<forall>e\<in>set ae. \<not> isRsync e"
proof -
  have "\<not> isUnitStates e \<and> \<not> isSetTarget e \<and> \<not> isStopRequest e \<and> \<not> isStartRequest e \<and>
      \<not> isRsync e" if "isLog e \<or> isArchiveOrUpload e" for e
    using that by (cases e) auto
  with assms show "\<forall>e\<in>set ae. \<not> isUnitStates e" "\<forall>e\<in>set ae. \<not> isSetTarget e"
    "\<forall>e\<in>set ae. \<not> isStopRequest e" "\<forall>e\<in>set ae. \<not> isStartRequest e"
    "\<forall>e\<in>set ae. \<not> isRsync e" by blast+
qed

lemmas skips = dropWhile_skip takeWhile_skip

lemma runInner_error_logged:
  assumes "fst (runInner w fc bw df tf an tr) \<noteq> None"
  shows "\<exists>m. last (snd (runInner w fc bw df tf an tr)) = Log ErrorLevel m"
proof (cases rule: runInner_cases[of w fc bw df tf an tr])
  case (safety hs q pre m)
  then show ?thesis by simp
next
  case (stop hs q pre e m m')
  then show ?thesis by simp
next
  case (cold hs q pre l m m' e m'')
  then show ?thesis by simp
next
  case (restart hs q pre l m m' m1 m2 r l' m3 ae)
  then show ?thesis using assms by simp
qed

lemma runInner_event_kinds:
  "\<exists>evs. snd (runInner w fc bw df tf an tr) = tr @ evs \<and> (\<forall>e\<in>set evs. isLog e \<or> isBackupStep e)"
proof (cases rule: runInner_cases[of w fc bw df tf an tr])
  case (safety hs q pre m)
  have "\<forall>e\<in>set (hs @ CallUnitStates q # pre @ [Log ErrorLevel m]). isLog e \<or> isBackupStep e"
    using safety(2,4) by (auto simp: isBackupStep_def)
  with safety(1) show ?thesis by blast
next
  case (stop hs q pre e m m')
  have "\<forall>x\<in>set (hs @ CallUnitStates q # pre @
         [CallSetUnitTargetState ''neo4j-red@1.service'' ''inactive'' (Some e),
          Log ErrorLevel m, Log ErrorLevel m']). isLog x \<or> isBackupStep x"
    using stop(2,4) by (auto simp: isBackupStep_def)
  with stop(1) show ?thesis by blast
next
  case (cold hs q pre l m m' e m'')
  have "\<forall>x\<in>set (hs @ CallUnitStates q # pre @
         [CallSetUnitTargetState ''neo4j-red@1.service'' ''inactive'' None, Log l m,
          Log InfoLevel m', CallRsync df tf (Some e), Log ErrorLevel m'']). isLog x \<or> isBackupStep x"
    using cold(2,4) by (auto simp: isBackupStep_def)
  with cold(1) show ?thesis by blast
next
  case (restart hs q pre l m m' m1 m2 r l' m3 ae)
  have "\<forall>x\<in>set (hs @ CallUnitStates q # pre @
         [CallSetUnitTargetState ''neo4j-red@1.service'' ''inactive'' None, Log l m,
          Log InfoLevel m', CallRsync df tf None, Log InfoLevel m1, Log InfoLevel m2,
          CallSetUnitTargetState ''neo4j-red@1.service'' ''launched'' r, Log l' m3] @ ae).
        isLog x \<or> isBackupStep x"
    using restart(2,4,7) by (auto simp: isBackupStep_def)
  with restart(1) show ?thesis by blast
qed

subsection \<open>The syncs\<close>

text \<open>
  C3. In every run of \<open>runInner\<close> there is at most one cold sync, and exactly one when
  the stop request succeeded. When the cold sync fails with an error, \<open>runInner\<close>
  returns that error, the only event after the sync is an error log, and the run has no
  start request and no archive or upload event.
\<close>

theorem coldSync_once_and_fatal:
  "(let evs = drop (length tr) (snd (runInner w fc bw df tf an tr))
    in length (coldSyncs evs) \<le> 1
     \<and> (CallSetUnitTargetState ''neo4j-red@1.service'' ''inactive'' None \<in> set evs \<longrightarrow>
          length (coldSyncs evs) = 1)
     \<and> (\<forall>s d e. CallRsync s d (Some e) \<in> set (coldSyncs evs) \<longrightarrow>
          fst (runInner w fc bw df tf an tr) = Some e
          \<and> (\<exists>m. dropWhile (Not \<circ> isRsync) (dropWhile (Not \<circ> isStopRequest) evs) =
                  [CallRsync df tf (Some e), Log ErrorLevel m])
          \<and> filter isStartRequest evs = [] \<and> filter isArchiveOrUpload evs = []))"
proof (cases rule: runInner_cases[of w fc bw df tf an tr])
  case (safety hs q pre m)
  note h = hot_kinds[OF safety(2)] and p = log_kinds[OF safety(4)]
  have "coldSyncs (drop (length tr) (snd (runInner w fc bw df tf an tr))) = []"
    by (simp add: safety(1) coldSyncs_def skips h p)
  moreover have "CallSetUnitTargetState ''neo4j-red@1.service'' ''inactive'' None
     \<notin> set (drop (length tr) (snd (runInner w fc bw df tf an tr)))"
    using h(2) p(2) by (auto simp: safety(1))
  ultimately show ?thesis by (simp add: Let_def)
next
  case (stop hs q pre e m m')
  note h = hot_kinds[OF stop(2)] and p = log_kinds[OF stop(4)]
  have "coldSyncs (drop (length tr) (snd (runInner w fc bw df tf an tr))) = []"
    by (simp add: stop(1) coldSyncs_def skips h p)
  moreover have "CallSetUnitTargetState ''neo4j-red@1.service'' ''inactive'' None
     \<notin> set (drop (length tr) (snd (runInner w fc bw df tf an tr)))"
    using h(2) p(2) by (auto simp: stop(1))
  ultimately show ?thesis by (simp add: Let_def)
next
  case (cold hs q pre l m m' e m'')
  note h = hot_kinds[OF cold(2)] and p = log_kinds[OF cold(4)]
  have c: "coldSyncs (drop (length tr) (snd (runInner w fc bw df tf an tr))) = [CallRsync df tf (Some e)]"
    by (simp add: cold(1) coldSyncs_def skips h p)
  have d: "dropWhile (Not \<circ> isRsync) (dropWhile (Not \<circ> isStopRequest)
       (drop (length tr) (snd (runInner w fc bw df tf an tr)))) = [CallRsync df tf (Some e), Log ErrorLevel m'']"
    by (simp add: cold(1) skips h p)
  have f: "filter isStartRequest (drop (length tr) (snd (runInner w fc bw df tf an tr))) = []"
    "filter isArchiveOrUpload (drop (length tr) (snd (runInner w fc bw df tf an tr))) = []"
    by (simp_all add: cold(1) skips h p)
  show ?thesis unfolding Let_def c d f using cold(6) by simp
next
  case (restart hs q pre l m m' m1 m2 r l' m3 ae)
  note h = hot_kinds[OF restart(2)] and p = log_kinds[OF restart(4)] and a = archive_kinds[OF restart(7)]
  have c: "coldSyncs (drop (length tr) (snd (runInner w fc bw df tf an tr))) = [CallRsync df tf None]"
    by (simp add: restart(1) coldSyncs_def skips h p a)
  show ?thesis unfolding Let_def c by simp
qed

theorem coldSync_once_and_fatal_witness:
  "CallSetUnitTargetState ''neo4j-red@1.service'' ''inactive'' None
     \<in> set (snd (runInner coldFailWorld idleFleet 1 ''/data/graph.db/'' ''/data/graph.db.backup'' ''a.tar.gz'' []))
   \<and> coldSyncs (snd (runInner coldFailWorld idleFleet 1 ''/data/graph.db/'' ''/data/graph.db.backup'' ''a.tar.gz'' []))
       = [CallRsync ''/data/graph.db/'' ''/data/graph.db.backup'' (Some ''rsync: exit status 23'')]
   \<and> fst (runInner coldFailWorld idleFleet 1 ''/data/graph.db/'' ''/data/graph.db.backup'' ''a.tar.gz'' [])
       = Some ''rsync: exit status 23''
   \<and> filter isStartRequest
        (snd (runInner coldFailWorld idleFleet 1 ''/data/graph.db/'' ''/data/graph.db.backup'' ''a.tar.gz'' [])) = []
   \<and> filter isArchiveOrUpload
        (snd (runInner coldFailWorld idleFleet 1 ''/data/graph.db/'' ''/data/graph.db.backup'' ''a.tar.gz'' [])) = []"
  using coldSync_once_and_fatal
    [of "[]" coldFailWorld idleFleet 1 "''/data/graph.db/''" "''/data/graph.db.backup''" "''a.tar.gz''"]
  by (simp add: run_defs world_defs coldSyncs_def)

text \<open>
  C4. In every run of \<open>runInner\<close> the syncs before the roster query are either one
  successful sync, or a failed sync followed by one more, whatever its outcome. In every
  case \<open>shutDownNeo\<close> is then called, on the trace of the hot syncs, and its roster
  query is in the trace. When \<open>runInner\<close> returns an error, an event from the roster
  query on is a failure: no outcome of the hot syncs alone makes it return an error.
\<close>

theorem hotSync_retried_once_nonfatal:
  "(let evs = drop (length tr) (snd (runInner w fc bw df tf an tr));
        hot = filter isRsync (takeWhile (Not \<circ> isUnitStates) evs)
    in (hot = [CallRsync df tf None] \<or>
        (\<exists>e1 r2. hot = [CallRsync df tf (Some e1), CallRsync df tf r2]))
     \<and> (\<exists>hs rest. takeWhile (Not \<circ> isUnitStates) evs = hs \<and>
            snd (runInner w fc bw df tf an tr) = snd (shutDownNeo fc (tr @ hs)) @ rest)
     \<and> filter isUnitStates evs \<noteq> []
     \<and> (fst (runInner w fc bw df tf an tr) \<noteq> None \<longrightarrow>
          filter isFailure (dropWhile (Not \<circ> isUnitStates) evs) \<noteq> []))"
proof (cases rule: runInner_cases[of w fc bw df tf an tr])
  case (safety hs q pre m)
  note h = hot_kinds[OF safety(2)]
  have t: "takeWhile (Not \<circ> isUnitStates) (drop (length tr) (snd (runInner w fc bw df tf an tr))) = hs"
    by (simp add: safety(1) skips h)
  have d: "dropWhile (Not \<circ> isUnitStates) (drop (length tr) (snd (runInner w fc bw df tf an tr)))
      = CallUnitStates q # pre @ [Log ErrorLevel m]"
    by (simp add: safety(1) skips h)
  have s: "snd (runInner w fc bw df tf an tr) = snd (shutDownNeo fc (tr @ hs)) @ [Log ErrorLevel m]"
    by (simp add: safety(1,7))
  have u: "filter isUnitStates (drop (length tr) (snd (runInner w fc bw df tf an tr))) \<noteq> []"
    by (simp add: safety(1))
  show ?thesis unfolding Let_def t d using safety(3,5) s u by simp
next
  case (stop hs q pre e m m')
  note h = hot_kinds[OF stop(2)]
  have t: "takeWhile (Not \<circ> isUnitStates) (drop (length tr) (snd (runInner w fc bw df tf an tr))) = hs"
    by (simp add: stop(1) skips h)
  have d: "dropWhile (Not \<circ> isUnitStates) (drop (length tr) (snd (runInner w fc bw df tf an tr)))
      = CallUnitStates q # pre @ [CallSetUnitTargetState ''neo4j-red@1.service'' ''inactive'' (Some e),
          Log ErrorLevel m, Log ErrorLevel m']"
    by (simp add: stop(1) skips h)
  have s: "snd (runInner w fc bw df tf an tr) = snd (shutDownNeo fc (tr @ hs)) @ [Log ErrorLevel m']"
    by (simp add: stop(1,7))
  have u: "filter isUnitStates (drop (length tr) (snd (runInner w fc bw df tf an tr))) \<noteq> []"
    by (simp add: stop(1))
  show ?thesis unfolding Let_def t d using stop(3) s u by simp
next
  case (cold hs q pre l m m' e m'')
  note h = hot_kinds[OF cold(2)]
  have t: "takeWhile (Not \<circ> isUnitStates) (drop (length tr) (snd (runInner w fc bw df tf an tr))) = hs"
    by (simp add: cold(1) skips h)
  have d: "dropWhile (Not \<circ> isUnitStates) (drop (length tr) (snd (runInner w fc bw df tf an tr)))
      = CallUnitStates q # pre @ [CallSetUnitTargetState ''neo4j-red@1.service'' ''inactive'' None, Log l m,
          Log InfoLevel m', CallRsync df tf (Some e), Log ErrorLevel m'']"
    by (simp add: cold(1) skips h)
  have s: "snd (runInner w fc bw df tf an tr) = snd (shutDownNeo fc (tr @ hs)) @
      [Log InfoLevel m', CallRsync df tf (Some e), Log ErrorLevel m'']"
    by (simp add: cold(1,7))
  have u: "filter isUnitStates (drop (length tr) (snd (runInner w fc bw df tf an tr))) \<noteq> []"
    by (simp add: cold(1))
  show ?thesis unfolding Let_def t d using cold(3) s u by simp
next
  case (restart hs q pre l m m' m1 m2 r l' m3 ae)
  note h = hot_kinds[OF restart(2)]
  have t: "takeWhile (Not \<circ> isUnitStates) (drop (length tr) (snd (runInner w fc bw df tf an tr))) = hs"
    by (simp add: restart(1) skips h)
  have d: "dropWhile (Not \<circ> isUnitStates) (drop (length tr) (snd (runInner w fc bw df tf an tr)))
      = CallUnitStates q # pre @ [CallSetUnitTargetState ''neo4j-red@1.service'' ''inactive'' None, Log l m,
          Log InfoLevel m', CallRsync df tf None, Log InfoLevel m1, Log InfoLevel m2,
          CallSetUnitTargetState ''neo4j-red@1.service'' ''launched'' r, Log l' m3] @ ae"
    by (simp add: restart(1) skips h)
  have s: "snd (runInner w fc bw df tf an tr) = snd (shutDownNeo fc (tr @ hs)) @
      [Log InfoLevel m', CallRsync df tf None, Log InfoLevel m1, Log InfoLevel m2,
          CallSetUnitTargetState ''neo4j-red@1.service'' ''launched'' r, Log l' m3] @ ae"
    by (simp add: restart(1,9))
  have u: "filter isUnitStates (drop (length tr) (snd (runInner w fc bw df tf an tr))) \<noteq> []"
    by (simp add: restart(1))
  show ?thesis unfolding Let_def t d using restart(3,8) s u by simp
qed

theorem hotSync_retried_once_nonfatal_witness:
  "filter isRsync (takeWhile (Not \<circ> isUnitStates)
      (snd (runInner hotFailWorld idleFleet 1 ''/data/graph.db/'' ''/data/graph.db.backup'' ''a.tar.gz'' [])))
     = [CallRsync ''/data/graph.db/'' ''/data/graph.db.backup'' (Some ''rsync: exit status 23''),
        CallRsync ''/data/graph.db/'' ''/data/graph.db.backup'' (Some ''rsync: exit status 23'')]
   \<and> fst (runInner hotFailWorld idleFleet 1 ''/data/graph.db/'' ''/data/graph.db.backup'' ''a.tar.gz'' []) = None
   \<and> fst (runInner hotFailWorld fleetDown 1 ''/data/graph.db/'' ''/data/graph.db.backup'' ''a.tar.gz'' [])
       = Some ''connection refused''
   \<and> filter isFailure (dropWhile (Not \<circ> isUnitStates)
      (snd (runInner hotFailWorld fleetDown 1 ''/data/graph.db/'' ''/data/graph.db.backup'' ''a.tar.gz'' [])))
     = [CallUnitStates (Inl ''connection refused'')]"
  using hotSync_retried_once_nonfatal
    [of "[]" hotFailWorld idleFleet 1 "''/data/graph.db/''" "''/data/graph.db.backup''" "''a.tar.gz''"]
    hotSync_retried_once_nonfatal
    [of "[]" hotFailWorld fleetDown 1 "''/data/graph.db/''" "''/data/graph.db.backup''" "''a.tar.gz''"]
  by (simp add: run_defs world_defs)

subsection \<open>The restart\<close>

text \<open>
  C5 fails on the code. On a fleet that rejects the start request, \<open>SetUnitTargetState\<close>
  returns an error for \<open>neo4j-red@1.service\<close> and \<open>launched\<close>, \<open>startNeo\<close>
  returns nil all the same, and \<open>runInner\<close> goes on to create the archive, upload it and
  return nil.
\<close>

theorem startNeo_drops_request_error:
  "SetUnitTargetState noStartFleet [Log InfoLevel ''Starting up neo4j...'']
      ''neo4j-red@1.service'' ''launched'' = Some ''unit not found''
   \<and> startNeo noStartFleet [] =
       (None, [Log InfoLevel ''Starting up neo4j...'',
               CallSetUnitTargetState ''neo4j-red@1.service'' ''launched'' (Some ''unit not found''),
               Log ErrorLevel ''Problem setting unit target state!''])
   \<and> fst (runInner okWorld noStartFleet 1 ''/data/graph.db/'' ''/data/graph.db.backup'' ''a.tar.gz'' []) = None
   \<and> filter isArchiveOrUpload
        (snd (runInner okWorld noStartFleet 1 ''/data/graph.db/'' ''/data/graph.db.backup'' ''a.tar.gz'' []))
       = [CallCreateBackup ''/data/graph.db.backup'' ''a.tar.gz'' (Inr 2), CallCopy 1 2 None,
          CallCloseReader 2, CallCloseWriter 1, CallValidateEnvironment]"
  by (simp add: run_defs world_defs)

subsection \<open>The upload\<close>

text \<open>
  C6. In every call of \<open>uploadToS3\<close>, whatever the copy returns, the events of the call
  hold exactly one close of a writer, it is the close of \<open>bucketWriter\<close>, and it is the
  last event before the function returns.
\<close>

theorem uploadToS3_closes_sink_once:
  "filter isCloseWriter (drop (length tr) (snd (uploadToS3 w bucketWriter pipeReader tr)))
     = [CallCloseWriter bucketWriter]
   \<and> last (snd (uploadToS3 w bucketWriter pipeReader tr)) = CallCloseWriter bucketWriter"
  by (simp add: uploadToS3_def Let_def split: option.splits)

text \<open>
  C7 fails on the code. When the copy returns an error, \<open>uploadToS3\<close> logs it, closes
  the writer and returns the error; \<open>pipeReader.Close()\<close> is not reached.
\<close>

theorem uploadToS3_error_leaves_reader_open:
  "uploadToS3 copyFailWorld 1 2 [] =
     (Some ''write: broken pipe'',
      [CallCopy 1 2 (Some ''write: broken pipe''),
       Log ErrorLevel ''Cannot upload archive to S3: write: broken pipe'',
       CallCloseWriter 1])
   \<and> CallCloseReader 2 \<notin> set (snd (uploadToS3 copyFailWorld 1 2 []))"
  by (simp add: uploadToS3_def Let_def world_defs)

subsection \<open>The archive name\<close>













subsection \<open>runOuter and main\<close>

lemma newFleetClient_shape:
  "take (length tr) (snd (newFleetClient w ep sp tr)) = tr \<and>
   (\<forall>x\<in>set (drop (length tr) (snd (newFleetClient w ep sp tr))). isLog x \<or> isConnect x) \<and>
   (\<forall>n. fst (newFleetClient w ep sp tr) = Exits n \<longrightarrow>
      n = 1 \<and> (\<exists>m. last (snd (newFleetClient w ep sp tr)) = Log FatalLevel m))"
  by (auto simp: newFleetClient_def Let_def split: sum.splits)

lemma newBucketWriter_shape:
  "newBucketWriter w k s d b an t =
     (case getWriter w t k s d b an of
        Inl err \<Rightarrow> (Inl err, t @ [CallGetWriter an (Inl err),
                       Log ErrorLevel (''BucketWriter cannot be created: '' @ err)])
      | Inr bw \<Rightarrow> (Inr bw, t @ [CallGetWriter an (Inr bw)]))"
  by (simp add: newBucketWriter_def Let_def split: sum.splits)

text \<open>
  Every run of \<open>runOuter\<close> has one of four shapes: the proxy dialer fails and the
  process exits; the fleet client is not built; the bucket writer is not built; or
  \<open>runInner\<close> runs.
\<close>

lemma runOuter_cases:
  obtains
    (fatal) fe m where
      "fst (newFleetClient w (fleetEndpoint cfg) (socksProxy cfg) tr) = Exits 1"
      "fst (runOuter w cfg tr) = Exits 1"
      "snd (runOuter w cfg tr) = tr @ fe" "\<forall>x\<in>set fe. isLog x \<or> isConnect x"
      "last (snd (runOuter w cfg tr)) = Log FatalLevel m"
      "snd (newFleetClient w (fleetEndpoint cfg) (socksProxy cfg) tr) = tr @ fe"
  | (noClient) fe e m where
      "fst (newFleetClient w (fleetEndpoint cfg) (socksProxy cfg) tr) = Returns (Inl e)"
      "fst (runOuter w cfg tr) = Returns (Some e)"
      "snd (runOuter w cfg tr) = tr @ fe @ [Log ErrorLevel m]" "\<forall>x\<in>set fe. isLog x \<or> isConnect x"
      "snd (newFleetClient w (fleetEndpoint cfg) (socksProxy cfg) tr) = tr @ fe"
  | (noWriter) fe fc an e m m' where
      "fst (newFleetClient w (fleetEndpoint cfg) (socksProxy cfg) tr) = Returns (Inr fc)"
      "fst (runOuter w cfg tr) = Returns (Some e)"
      "snd (runOuter w cfg tr) = tr @ fe @ [CallGetWriter an (Inl e), Log ErrorLevel m, Log ErrorLevel m']"
      "\<forall>x\<in>set fe. isLog x \<or> isConnect x"
      "an = archiveNameOf (nowUTC w (tr @ fe)) (env cfg)"
      "snd (newFleetClient w (fleetEndpoint cfg) (socksProxy cfg) tr) = tr @ fe"
  | (run) fe fc an bw where
      "fst (newFleetClient w (fleetEndpoint cfg) (socksProxy cfg) tr) = Returns (Inr fc)"
      "fst (runOuter w cfg tr) =
         Returns (fst (runInner w fc bw (dataFolder cfg) (targetFolder cfg) an
                        (tr @ fe @ [CallGetWriter an (Inr bw)])))"
      "snd (runOuter w cfg tr) =
         snd (runInner w fc bw (dataFolder cfg) (targetFolder cfg) an
                        (tr @ fe @ [CallGetWriter an (Inr bw)]))"
      "\<forall>x\<in>set fe. isLog x \<or> isConnect x"
      "an = archiveNameOf (nowUTC w (tr @ fe)) (env cfg)"
      "snd (newFleetClient w (fleetEndpoint cfg) (socksProxy cfg) tr) = tr @ fe"
proof -
  define nf where "nf = newFleetClient w (fleetEndpoint cfg) (socksProxy cfg) tr"
  define fe where "fe = drop (length tr) (snd nf)"
  have nf: "snd nf = tr @ fe" "\<forall>x\<in>set fe. isLog x \<or> isConnect x"
    "\<forall>n. fst nf = Exits n \<longrightarrow> n = 1 \<and> (\<exists>m. last (snd nf) = Log FatalLevel m)"
    using newFleetClient_shape[of tr w "fleetEndpoint cfg" "socksProxy cfg"]
      append_take_drop_id[of "length tr" "snd nf"]
    unfolding nf_def[symmetric] fe_def[symmetric] by simp_all
  have pair: "newFleetClient w (fleetEndpoint cfg) (socksProxy cfg) tr = (fst nf, tr @ fe)"
    using nf(1) by (simp add: nf_def[symmetric] prod_eq_iff)
  show thesis
  proof (cases "fst nf")
    case (Exits n)
    with nf(3) obtain m where m: "n = 1" "last (snd nf) = Log FatalLevel m" by blast
    have "runOuter w cfg tr = (Exits 1, tr @ fe)"
      using Exits m(1) by (simp add: runOuter_def pair)
    then show thesis using fatal[of fe m] Exits m nf(1,2) by (simp add: nf_def)
  next
    case (Returns res)
    show thesis
    proof (cases res)
      case (Inl e)
      have "runOuter w cfg tr = (Returns (Some e),
          tr @ fe @ [Log ErrorLevel ''Error instantiating fleet client; backup process failed.''])"
        using Returns Inl by (simp add: runOuter_def pair)
      then show thesis using noClient[of e fe] Returns Inl nf(1,2) by (simp add: nf_def)
    next
      case (Inr fc)
      define an where "an = archiveNameOf (nowUTC w (tr @ fe)) (env cfg)"
      show thesis
      proof (cases "getWriter w (tr @ fe) (awsAccessKey cfg) (awsSecretKey cfg) (s3Domain cfg) (bucketName cfg) an")
        case (Inl e)
        have "runOuter w cfg tr = (Returns (Some e),
          tr @ fe @ [CallGetWriter an (Inl e), Log ErrorLevel (''BucketWriter cannot be created: '' @ e),
            Log ErrorLevel ''Error instantiating S3 bucket writer; backup process failed.''])"
          using Returns Inr Inl
          by (simp add: runOuter_def pair newBucketWriter_shape an_def[symmetric])
        then show thesis using noWriter[of fc e fe an] Returns Inr nf(1,2) an_def by (simp add: nf_def)
      next
        case bw: (Inr bw)
        have "runOuter w cfg tr =
           (Returns (fst (runInner w fc bw (dataFolder cfg) (targetFolder cfg) an
                        (tr @ fe @ [CallGetWriter an (Inr bw)]))),
            snd (runInner w fc bw (dataFolder cfg) (targetFolder cfg) an
                        (tr @ fe @ [CallGetWriter an (Inr bw)])))"
          using Returns Inr bw
          by (simp add: runOuter_def pair newBucketWriter_shape an_def[symmetric] case_prod_beta)
        then show thesis using run[of fc bw an fe] Returns Inr nf(1,2) an_def by (simp add: nf_def)
      qed
    qed
  qed
qed

lemma connect_kinds:
  assumes "\<forall>x\<in>set fe. isLog x \<or> isConnect x"
  shows "\<forall>x\<in>set fe. \<not> isBackupStep x" "\<forall>an r. CallGetWriter an r \<notin> set fe"
proof -
  have "\<not> isBackupStep x \<and> (\<forall>an r. x \<noteq> CallGetWriter an r)" if "isLog x \<or> isConnect x" for x
    using that by (cases x) (auto simp: isBackupStep_def)
  with assms show "\<forall>x\<in>set fe. \<not> isBackupStep x" "\<forall>an r. CallGetWriter an r \<notin> set fe" by blast+
qed

lemma step_kinds:
  assumes "\<forall>x\<in>set evs. isLog x \<or> isBackupStep x"
  shows "\<forall>an r. CallGetWriter an r \<notin> set evs"
proof -
  have "\<forall>an r. x \<noteq> CallGetWriter an r" if "isLog x \<or> isBackupStep x" for x
    using that by (cases x) (auto simp: isBackupStep_def)
  with assms show ?thesis by blast
qed

lemma runOuter_error_logged:
  assumes "fst (runOuter w cfg tr) = Returns (Some e)"
  shows "\<exists>m. last (snd (runOuter w cfg tr)) = Log ErrorLevel m"
proof (cases rule: runOuter_cases[of w cfg tr])
  case (fatal fe m)
  with assms show ?thesis by simp
next
  case (noClient fe e m)
  then show ?thesis by simp
next
  case (noWriter fe fc an e m m')
  then show ?thesis by simp
next
  case (run fe fc an bw)
  with assms have "fst (runInner w fc bw (dataFolder cfg) (targetFolder cfg) an
                        (tr @ fe @ [CallGetWriter an (Inr bw)])) \<noteq> None" by simp
  from runInner_error_logged[OF this] show ?thesis by (simp add: run(3))
qed

lemma runOuter_exit_status:
  assumes "fst (runOuter w cfg tr) = Exits n"
  shows "n = 1 \<and> (\<exists>m. last (snd (runOuter w cfg tr)) = Log FatalLevel m)"
  using assms by (cases rule: runOuter_cases[of w cfg tr]) auto

lemma newFleetClient_ok:
  "fst (newFleetClient w ep sp tr) = Returns (Inr fc) \<Longrightarrow>
     (\<exists>u. urlParse w ep = Inr u) \<and>
     filter isSetupFailure (drop (length tr) (snd (newFleetClient w ep sp tr))) = []"
  by (auto simp: newFleetClient_def Let_def split: sum.splits if_splits)

lemma filter_dropWhile_snoc:
  "\<not> Q y \<Longrightarrow> filter Q (dropWhile P (xs @ [y])) = filter Q (dropWhile P xs)"
  by (induction xs) auto

lemma runInner_fatal_failure:
  assumes "filter (\<lambda>f. isFailure f \<and> \<not> isStartRequest f)
      (dropWhile (Not \<circ> isUnitStates) (drop (length tr) (snd (runInner w fc bw df tf an tr)))) \<noteq> []"
  shows "fst (runInner w fc bw df tf an tr) \<noteq> None"
proof (cases rule: runInner_cases[of w fc bw df tf an tr])
  case (safety hs q pre m)
  then show ?thesis by simp
next
  case (stop hs q pre e m m')
  then show ?thesis by simp
next
  case (cold hs q pre l m m' e m'')
  then show ?thesis by simp
next
  case (restart hs q pre l m m' m1 m2 r l' m3 ae)
  note h = hot_kinds[OF restart(2)]
  have p: "\<forall>x\<in>set pre. \<not> isFailure x"
  proof
    fix x assume "x \<in> set pre"
    with restart(4) have "isLog x" by blast
    then show "\<not> isFailure x" by (cases x) auto
  qed
  have d: "dropWhile (Not \<circ> isUnitStates) (drop (length tr) (snd (runInner w fc bw df tf an tr)))
      = CallUnitStates q # pre @ [CallSetUnitTargetState ''neo4j-red@1.service'' ''inactive'' None, Log l m,
          Log InfoLevel m', CallRsync df tf None, Log InfoLevel m1, Log InfoLevel m2,
          CallSetUnitTargetState ''neo4j-red@1.service'' ''launched'' r, Log l' m3] @ ae"
    by (simp add: restart(1) skips h)
  have pf: "filter (\<lambda>f. isFailure f \<and> \<not> isStartRequest f) pre = []"
    using p by (auto simp: filter_empty_conv)
  have "filter (\<lambda>f. isFailure f \<and> \<not> isStartRequest f) ae \<noteq> []"
    using assms restart(5) unfolding d by (simp add: pf)
  then have "filter isFailure ae \<noteq> []"
    by (auto simp: filter_empty_conv)
  with restart(10) show ?thesis by blast
qed

lemma step_not_setup:
  assumes "\<forall>x\<in>set evs. isLog x \<or> isBackupStep x"
  shows "filter isSetupFailure evs = []"
proof -
  have "\<not> isSetupFailure x" if "isLog x \<or> isBackupStep x" for x
    using that by (cases x) (auto simp: isBackupStep_def)
  with assms show ?thesis by (auto simp: filter_empty_conv)
qed

lemma connect_not_rosterQuery:
  assumes "\<forall>x\<in>set fe. isLog x \<or> isConnect x"
  shows "\<forall>x\<in>set fe. \<not> isUnitStates x"
proof
  fix x assume "x \<in> set fe"
  with assms have "isLog x \<or> isConnect x" by blast
  then show "\<not> isUnitStates x" by (cases x) auto
qed

lemma runOuter_fatal_failure:
  assumes "fatalStageFailure w cfg (snd (runOuter w cfg [Log l0 m0]) @ [Log l1 m1])"
  shows "fst (runOuter w cfg [Log l0 m0]) \<noteq> Returns None"
proof (cases rule: runOuter_cases[of w cfg "[Log l0 m0]"])
  case (fatal fe m)
  then show ?thesis by simp
next
  case (noClient fe e m)
  then show ?thesis by simp
next
  case (noWriter fe fc an e m m')
  then show ?thesis by simp
next
  case (run fe fc an bw)
  define t where "t = [Log l0 m0] @ fe @ [CallGetWriter an (Inr bw)]"
  obtain evs where evs:
    "snd (runInner w fc bw (dataFolder cfg) (targetFolder cfg) an t) = t @ evs"
    "\<forall>e\<in>set evs. isLog e \<or> isBackupStep e"
    using runInner_event_kinds by blast
  from newFleetClient_ok[OF run(1)] run(6)
  have ok: "\<exists>u. urlParse w (fleetEndpoint cfg) = Inr u" "filter isSetupFailure fe = []"
    by simp_all
  have tr: "snd (runOuter w cfg [Log l0 m0]) = [Log l0 m0] @ fe @ [CallGetWriter an (Inr bw)] @ evs"
    using run(3) evs(1) by (simp add: t_def)
  have s: "filter isSetupFailure (snd (runOuter w cfg [Log l0 m0]) @ [Log l1 m1]) = []"
    by (simp add: tr ok(2) step_not_setup[OF evs(2)])
  have dw: "dropWhile (Not \<circ> isUnitStates) (snd (runOuter w cfg [Log l0 m0]) @ [Log l1 m1])
      = dropWhile (Not \<circ> isUnitStates) (evs @ [Log l1 m1])"
    using connect_not_rosterQuery[OF run(4)] by (simp add: tr skips)
  have "filter (\<lambda>f. isFailure f \<and> \<not> isStartRequest f) (dropWhile (Not \<circ> isUnitStates) evs) \<noteq> []"
    using assms ok(1) s unfolding fatalStageFailure_def dw
    by (auto simp: filter_dropWhile_snoc)
  then have "fst (runInner w fc bw (dataFolder cfg) (targetFolder cfg) an t) \<noteq> None"
    using runInner_fatal_failure[of t w fc bw "dataFolder cfg" "targetFolder cfg" an]
    by (simp add: evs(1))
  then show ?thesis using run(2) by (simp add: t_def)
qed

text \<open>
  C9, as the code has it. For a run in which the action is called: the process exits with
  status 0 iff \<open>runOuter\<close> returns nil. When a stage that the pipeline treats as fatal
  fails (the URL parser, the proxy dialer, the fleet client, the bucket writer, the safety
  check, the stop request, the cold sync, the archive, the copy), the status is 1. Every
  non-zero status is 1 and comes after a log at the error or the fatal level: an error
  returned by \<open>runOuter\<close> after a log at the error level, the exit inside
  \<open>newFleetClient\<close> after its fatal log.
\<close>

theorem main_exit_status:
  "(fst (main w cfg) = 0 \<longleftrightarrow>
      fst (runOuter w cfg [Log InfoLevel ''Starting backup operation.'']) = Returns None)
   \<and> (fatalStageFailure w cfg (snd (main w cfg)) \<longrightarrow> fst (main w cfg) = 1)
   \<and> (fst (main w cfg) \<noteq> 0 \<longrightarrow>
         fst (main w cfg) = 1 \<and>
         (\<exists>l m. last (snd (main w cfg)) = Log l m \<and> (l = ErrorLevel \<or> l = FatalLevel)))
   \<and> (\<forall>e. fst (runOuter w cfg [Log InfoLevel ''Starting backup operation.'']) = Returns (Some e) \<longrightarrow>
         fst (main w cfg) = 1 \<and> (\<exists>m. last (snd (main w cfg)) = Log ErrorLevel m))
   \<and> (\<forall>n. fst (runOuter w cfg [Log InfoLevel ''Starting backup operation.'']) = Exits n \<longrightarrow>
         fst (main w cfg) = 1 \<and> n = 1)"
proof -
  define ro where "ro = runOuter w cfg [Log InfoLevel ''Starting backup operation.'']"
  have m: "main w cfg =
     (case fst ro of
        Exits n \<Rightarrow> (n, snd ro)
      | Returns err \<Rightarrow>
          (if err \<noteq> None then (1, snd ro)
           else (0, snd ro @ [Log InfoLevel ''Backup process complete.''])))"
    by (simp add: main_def ro_def case_prod_beta split: proc.splits)
  have ex: "n = 1 \<and> (\<exists>m. last (snd ro) = Log FatalLevel m)" if "fst ro = Exits n" for n
    using runOuter_exit_status[of w cfg "[Log InfoLevel ''Starting backup operation.'']" n] that
    by (simp add: ro_def)
  have lg: "\<exists>m. last (snd ro) = Log ErrorLevel m" if "fst ro = Returns (Some e)" for e
    using runOuter_error_logged[of w cfg "[Log InfoLevel ''Starting backup operation.'']" e] that
    by (simp add: ro_def)
  have ff: "fst ro \<noteq> Returns None"
    if "fatalStageFailure w cfg (snd ro @ [Log InfoLevel ''Backup process complete.''])"
    using runOuter_fatal_failure[of w cfg InfoLevel "''Starting backup operation.''" InfoLevel
        "''Backup process complete.''"] that
    by (simp add: ro_def)
  have c1: "fst (main w cfg) = 0 \<longleftrightarrow> fst ro = Returns None"
    unfolding m using ex by (auto split: proc.splits)
  have c2: "fatalStageFailure w cfg (snd (main w cfg)) \<longrightarrow> fst (main w cfg) = 1"
    unfolding m using ex ff by (auto split: proc.splits)
  have c3: "fst (main w cfg) \<noteq> 0 \<longrightarrow>
         fst (main w cfg) = 1 \<and>
         (\<exists>l m. last (snd (main w cfg)) = Log l m \<and> (l = ErrorLevel \<or> l = FatalLevel))"
    unfolding m using ex lg by (auto split: proc.splits)
  have c4: "\<forall>e. fst ro = Returns (Some e) \<longrightarrow>
         fst (main w cfg) = 1 \<and> (\<exists>m. last (snd (main w cfg)) = Log ErrorLevel m)"
    unfolding m using lg by (auto split: proc.splits)
  have c5: "\<forall>n. fst ro = Exits n \<longrightarrow> fst (main w cfg) = 1 \<and> n = 1"
    unfolding m using ex by (auto split: proc.splits)
  show ?thesis unfolding ro_def[symmetric] using c1 c2 c3 c4 c5 by blast
qed

theorem main_exit_status_witness:
  "fst (runOuter okWorld testConfig [Log InfoLevel ''Starting backup operation.'']) = Returns None
   \<and> fst (main okWorld testConfig) = 0
   \<and> fatalStageFailure coldFailWorld testConfig (snd (main coldFailWorld testConfig))
   \<and> fst (runOuter coldFailWorld testConfig [Log InfoLevel ''Starting backup operation.''])
       = Returns (Some ''rsync: exit status 23'')
   \<and> fst (main coldFailWorld testConfig) = 1
   \<and> last (snd (main coldFailWorld testConfig)) = Log ErrorLevel
        ''Error synchronising neo4j files while database is stopped; backup process failed.''
   \<and> fatalStageFailure copyFailWorld testConfig (snd (main copyFailWorld testConfig))
   \<and> fst (main copyFailWorld testConfig) = 1
   \<and> fatalStageFailure noWriterWorld testConfig (snd (main noWriterWorld testConfig))
   \<and> fst (main noWriterWorld testConfig) = 1
   \<and> fatalStageFailure badUrlWorld testConfig (snd (main badUrlWorld testConfig))
   \<and> fst (main badUrlWorld testConfig) = 1
   \<and> fst (runOuter badProxyWorld (testConfig\<lparr>socksProxy := ''127.0.0.1:1080''\<rparr>)
          [Log InfoLevel ''Starting backup operation.'']) = Exits 1
   \<and> fatalStageFailure badProxyWorld (testConfig\<lparr>socksProxy := ''127.0.0.1:1080''\<rparr>)
        (snd (main badProxyWorld (testConfig\<lparr>socksProxy := ''127.0.0.1:1080''\<rparr>)))
   \<and> fst (main badProxyWorld (testConfig\<lparr>socksProxy := ''127.0.0.1:1080''\<rparr>)) = 1"
  using main_exit_status [of okWorld testConfig] main_exit_status [of coldFailWorld testConfig]
    main_exit_status [of copyFailWorld testConfig] main_exit_status [of noWriterWorld testConfig]
    main_exit_status [of badUrlWorld testConfig]
    main_exit_status [of badProxyWorld "testConfig\<lparr>socksProxy := ''127.0.0.1:1080''\<rparr>"]
  by (simp add: outer_defs run_defs world_defs fatalStageFailure_def)

text \<open>
  C9 as stated fails on a run whose two hot syncs fail and whose other calls succeed: the
  sync returned a failure twice, and the process exits with status 0.
\<close>

theorem main_hot_failure_counterexample:
  "filter isFailure (snd (main hotFailWorld testConfig))
     = [CallRsync ''/data/graph.db/'' ''/data/graph.db.backup'' (Some ''rsync: exit status 23''),
        CallRsync ''/data/graph.db/'' ''/data/graph.db.backup'' (Some ''rsync: exit status 23'')]
   \<and> fst (main hotFailWorld testConfig) = 0"
  by (simp add: outer_defs run_defs world_defs deployerInactive_def)

text \<open>
  C10. In every run of \<open>runOuter\<close>: when \<open>newFleetClient\<close> returns an error, or
  the writer provider does, \<open>runOuter\<close> returns that error and the run has no backup
  step (no sync, no roster query, no target-state request, no archive or upload call). A run
  that has a backup step has the successful creation of the bucket writer before the first
  one.
\<close>

theorem runOuter_writer_first:
  "(let evs = drop (length tr) (snd (runOuter w cfg tr))
    in (\<forall>e. fst (newFleetClient w (fleetEndpoint cfg) (socksProxy cfg) tr) = Returns (Inl e) \<longrightarrow>
          fst (runOuter w cfg tr) = Returns (Some e) \<and> filter isBackupStep evs = [])
     \<and> (\<forall>an e. CallGetWriter an (Inl e) \<in> set evs \<longrightarrow>
          fst (runOuter w cfg tr) = Returns (Some e) \<and> filter isBackupStep evs = [])
     \<and> (filter isBackupStep evs \<noteq> [] \<longrightarrow>
          (\<exists>an h. CallGetWriter an (Inr h) \<in> set (takeWhile (Not \<circ> isBackupStep) evs))))"
proof (cases rule: runOuter_cases[of w cfg tr])
  case (fatal fe m)
  note k = connect_kinds[OF fatal(4)]
  show ?thesis using k by (simp add: Let_def fatal(1,3))
next
  case (noClient fe e m)
  note k = connect_kinds[OF noClient(4)]
  show ?thesis using k by (simp add: Let_def noClient(1,2,3) isBackupStep_def)
next
  case (noWriter fe fc an e m m')
  note k = connect_kinds[OF noWriter(4)]
  show ?thesis using k by (auto simp add: Let_def noWriter(1,2,3) isBackupStep_def)
next
  case (run fe fc an bw)
  note k = connect_kinds[OF run(4)]
  obtain evs where evs:
    "snd (runInner w fc bw (dataFolder cfg) (targetFolder cfg) an (tr @ fe @ [CallGetWriter an (Inr bw)]))
       = (tr @ fe @ [CallGetWriter an (Inr bw)]) @ evs"
    "\<forall>e\<in>set evs. isLog e \<or> isBackupStep e"
    using runInner_event_kinds by blast
  note s = step_kinds[OF evs(2)]
  have d: "drop (length tr) (snd (runOuter w cfg tr)) = fe @ CallGetWriter an (Inr bw) # evs"
    by (simp add: run(3) evs(1))
  have t: "CallGetWriter an (Inr bw) \<in> set (takeWhile (Not \<circ> isBackupStep) (fe @ CallGetWriter an (Inr bw) # evs))"
    using k(1) by (simp add: takeWhile_skip isBackupStep_def)
  have g: "CallGetWriter an' (Inl e) \<notin> set (fe @ CallGetWriter an (Inr bw) # evs)" for an' e
    using k(2) s by simp
  have c: "fst (newFleetClient w (fleetEndpoint cfg) (socksProxy cfg) tr) \<noteq> Returns (Inl e)" for e
    using run(1) by simp
  show ?thesis unfolding Let_def d using t g c by blast
qed

theorem runOuter_writer_first_witness:
  "fst (newFleetClient badUrlWorld (fleetEndpoint testConfig) (socksProxy testConfig) []) = Returns (Inl ''parse error'')
   \<and> fst (runOuter badUrlWorld testConfig []) = Returns (Some ''parse error'')
   \<and> filter isBackupStep (snd (runOuter badUrlWorld testConfig [])) = []
   \<and> CallGetWriter (archiveNameOf (nowUTC noWriterWorld []) ''prod-uk'') (Inl ''access denied'')
        \<in> set (snd (runOuter noWriterWorld testConfig []))
   \<and> fst (runOuter noWriterWorld testConfig []) = Returns (Some ''access denied'')
   \<and> filter isBackupStep (snd (runOuter noWriterWorld testConfig [])) = []
   \<and> filter isBackupStep (snd (runOuter okWorld testConfig [])) \<noteq> []
   \<and> CallGetWriter (archiveNameOf (nowUTC okWorld []) ''prod-uk'') (Inr 1)
        \<in> set (takeWhile (Not \<circ> isBackupStep) (snd (runOuter okWorld testConfig [])))"
  using runOuter_writer_first [of "[]" badUrlWorld testConfig]
    runOuter_writer_first [of "[]" noWriterWorld testConfig]
    runOuter_writer_first [of "[]" okWorld testConfig]
  by (simp add: outer_defs run_defs world_defs isBackupStep_def)

end
